theory Spec2Isabelle
  imports Complex_Main "HOL-Library.Log_Nat"
begin

section \<open>The BLE/WBAN data generator of \<^verbatim>\<open>src/data/bleWbanDataGenerator.ts\<close>\<close>

text \<open>
  The class \<^verbatim>\<open>BLEWBANDataGenerator\<close> is embedded with explicit state passing. Its three
  private fields form a record; the two ambient inputs it reads, \<^verbatim>\<open>Math.random()\<close> and
  \<^verbatim>\<open>Date.now()\<close>, are streams of an environment that every call consumes from the front.
  A JavaScript \<^verbatim>\<open>number\<close> is read as a real; fields that only ever hold counters or
  array indices are natural numbers or integers. Where a product is handed to
  \<^verbatim>\<open>Math.round\<close> its last bit can decide the whole number returned, so those products are
  rounded to double precision as IEEE 754 does.
\<close>

subsection \<open>Random source and clock\<close>

text \<open>\<^verbatim>\<open>Math.random()\<close> returns a number in the half-open interval from 0 to 1.\<close>

typedef unit01 = "{x::real. 0 \<le> x \<and> x < 1}"
  morphisms val Abs_unit01
  by (rule exI [of _ 0]) simp

setup_lifting type_definition_unit01

lift_definition unit01_of :: "real \<Rightarrow> unit01" is
  "\<lambda>x. if 0 \<le> x \<and> x < 1 then x else 0"
  by simp

record env =
  randoms :: "nat \<Rightarrow> unit01"
  clock :: "nat \<Rightarrow> int"

definition Math_random :: "env \<Rightarrow> real \<times> env" where
  "Math_random e = (val (randoms e 0), e\<lparr>randoms := \<lambda>i. randoms e (Suc i)\<rparr>)"

definition Date_now :: "env \<Rightarrow> int \<times> env" where
  "Date_now e = (clock e 0, e\<lparr>clock := \<lambda>i. clock e (Suc i)\<rparr>)"

text \<open>\<^verbatim>\<open>Array.from({ length: n }, () => f(Math.random()))\<close>: one draw per element, in order.\<close>

fun random_array :: "nat \<Rightarrow> (real \<Rightarrow> real) \<Rightarrow> env \<Rightarrow> real list \<times> env" where
  "random_array 0 f e = ([], e)"
| "random_array (Suc n) f e =
     (let (r, e1) = Math_random e;
          (xs, e2) = random_array n f e1
      in (f r # xs, e2))"

subsection \<open>Data model\<close>

datatype position = head | arm | wrist | chest | torso_front | torso_back

datatype signalQuality = excellent | good | fair | poor

datatype connectionStatus = connected | weak | disconnected

record BLEWBANFrame =
  frameNumber :: nat
  timestamp :: int
  deviceId :: string
  position :: position
  txPower :: string
  antenna :: int
  frequency :: nat
  channelNumber :: nat
  rssi :: real
  signalStrength :: real
  frameDecoded :: bool
  bitLength :: int
  maxGradientUnwrappedPhase :: "real list"
  iComponent :: "real list"
  qComponent :: "real list"

record bloodPressure =
  systolic :: real
  diastolic :: real

record VitalSignsReading =
  heartRate :: real
  bloodPressure :: bloodPressure
  oxygenSaturation :: real
  temperature :: real
  reading_timestamp :: int
  signalQuality :: signalQuality
  batteryLevel :: real
  connectionStatus :: connectionStatus

record sensor =
  sensor_id :: string
  sensor_name :: string
  sensor_position :: position
  priority :: nat

definition WBAN_POSITIONS :: "sensor list" where
  "WBAN_POSITIONS =
    [\<lparr>sensor_id = ''chest'', sensor_name = ''Chest ECG'', sensor_position = chest, priority = 1\<rparr>,
     \<lparr>sensor_id = ''wrist_l'', sensor_name = ''Left Wrist'', sensor_position = wrist, priority = 2\<rparr>,
     \<lparr>sensor_id = ''wrist_r'', sensor_name = ''Right Wrist'', sensor_position = wrist, priority = 2\<rparr>,
     \<lparr>sensor_id = ''head'', sensor_name = ''Head Monitor'', sensor_position = head, priority = 3\<rparr>,
     \<lparr>sensor_id = ''arm_l'', sensor_name = ''Left Arm BP'', sensor_position = arm, priority = 2\<rparr>,
     \<lparr>sensor_id = ''torso_back'', sensor_name = ''Back Monitor'', sensor_position = torso_back,
      priority = 4\<rparr>]"

definition BLE_CHANNELS :: "nat list" where
  "BLE_CHANNELS =
    [0, 1, 2, 3, 4, 5, 6, 7, 8, 9, 10, 12, 13, 14, 15, 16, 17, 18, 19, 20, 21, 22, 23, 24, 25,
     26, 27, 28, 29, 30, 31, 32, 33, 34, 35, 36, 37, 38, 39]"

record BLEWBANDataGenerator =
  frameCounter :: nat
  lastReadings :: "string \<rightharpoonup> VitalSignsReading"
  signalNoiseFactors :: "string \<rightharpoonup> real"

type_synonym world = "BLEWBANDataGenerator \<times> env"

subsection \<open>The constructor\<close>

fun initNoiseFactors :: "sensor list \<Rightarrow> world \<Rightarrow> world" where
  "initNoiseFactors [] ge = ge"
| "initNoiseFactors (pos # rest) (g, e) =
     (let (r, e1) = Math_random e
      in initNoiseFactors rest
           (g\<lparr>signalNoiseFactors := (signalNoiseFactors g)(sensor_id pos \<mapsto> r * 0.1 + 0.9)\<rparr>, e1))"

definition constructor :: "env \<Rightarrow> world" where
  "constructor e =
     initNoiseFactors WBAN_POSITIONS
       (\<lparr>frameCounter = 0, lastReadings = Map.empty, signalNoiseFactors = Map.empty\<rparr>, e)"

subsection \<open>generateBLEFrame\<close>

text \<open>
  \<^verbatim>\<open>Math.random() > 0.7 ? '9dbm' : Math.random() > 0.5 ? '6dbm' : '3dbm'\<close>: the second draw
  happens only when the first test fails.
\<close>

definition draw_txPower :: "env \<Rightarrow> string \<times> env" where
  "draw_txPower e =
     (let (r1, e1) = Math_random e
      in if r1 > 0.7 then (''9dbm'', e1)
         else (let (r2, e2) = Math_random e1
               in if r2 > 0.5 then (''6dbm'', e2) else (''3dbm'', e2)))"

text \<open>\<^verbatim>\<open>this.signalNoiseFactors.get(deviceId) || 1\<close>: an absent key and the number 0 both give 1.\<close>

definition noiseLevel_of :: "BLEWBANDataGenerator \<Rightarrow> string \<Rightarrow> real" where
  "noiseLevel_of g dev =
     (case signalNoiseFactors g dev of None \<Rightarrow> 1 | Some v \<Rightarrow> if v = 0 then 1 else v)"

definition generateBLEFrame :: "string \<Rightarrow> position \<Rightarrow> world \<Rightarrow> BLEWBANFrame \<times> world" where
  "generateBLEFrame dev pos ge =
     (let (g0, e0) = ge;
          g = g0\<lparr>frameCounter := frameCounter g0 + 1\<rparr>;
          (txp, e1) = draw_txPower e0;
          (rc, e2) = Math_random e1;
          channel = BLE_CHANNELS ! nat \<lfloor>rc * real (length BLE_CHANNELS)\<rfloor>;
          freq = 2402000000 + channel * 2000000;
          (rl, e3) = Math_random e2;
          frameLength = \<lfloor>rl * 1000\<rfloor> + 8000;
          (iComp, e4) = random_array 10 (\<lambda>r. (r - 0.5) * 0.02) e3;
          (qComp, e5) = random_array 10 (\<lambda>r. (r - 0.5) * 0.02) e4;
          noiseLevel = noiseLevel_of g dev;
          baseRSSI = - 40;
          (rr, e6) = Math_random e5;
          rssi_v = baseRSSI + (rr * 20 - 10) * (1 / noiseLevel);
          (now, e7) = Date_now e6;
          (ra, e8) = Math_random e7;
          (rd, e9) = Math_random e8;
          (rb, e10) = Math_random e9;
          (phase, e11) = random_array 5 (\<lambda>r. r * 0.03 - 0.015) e10
      in (\<lparr>frameNumber = frameCounter g,
           timestamp = now,
           deviceId = dev,
           position = pos,
           txPower = txp,
           antenna = \<lfloor>ra * 4\<rfloor> + 1,
           frequency = freq,
           channelNumber = channel,
           rssi = rssi_v,
           signalStrength = max 0 (min 100 ((rssi_v + 100) * 1.25)),
           frameDecoded = (rd > 0.05),
           bitLength = \<lfloor>rb * 100\<rfloor> + 150,
           maxGradientUnwrappedPhase = phase,
           iComponent = iComp,
           qComponent = qComp\<rparr>, g, e11))"

subsection \<open>extractVitalSigns\<close>

text \<open>\<^verbatim>\<open>lastValue || d\<close>: \<^verbatim>\<open>undefined\<close> and 0 both give the default.\<close>

definition or_default :: "real option \<Rightarrow> real \<Rightarrow> real" where
  "or_default lastValue d = (case lastValue of None \<Rightarrow> d | Some v \<Rightarrow> if v = 0 then d else v)"

text \<open>A default parameter \<^verbatim>\<open>stability = s\<close> applies when the caller passes nothing.\<close>

definition generateHeartRate :: "real option \<Rightarrow> real option \<Rightarrow> env \<Rightarrow> real \<times> env" where
  "generateHeartRate lastValue stability_arg e =
     (let stability = (case stability_arg of None \<Rightarrow> 0.9 | Some s \<Rightarrow> s);
          baseRate = or_default lastValue 72;
          (r, e1) = Math_random e;
          variation = (r - 0.5) * 10
      in (max 50 (min 150 (baseRate * stability + variation)), e1))"

definition generateBloodPressure :: "bloodPressure option \<Rightarrow> env \<Rightarrow> bloodPressure \<times> env" where
  "generateBloodPressure lastValue e =
     (let baseSys = or_default (map_option systolic lastValue) 120;
          baseDia = or_default (map_option diastolic lastValue) 80;
          (r1, e1) = Math_random e;
          (r2, e2) = Math_random e1
      in (\<lparr>systolic = max 90 (min 180 (baseSys + (r1 - 0.5) * 8)),
           diastolic = max 60 (min 120 (baseDia + (r2 - 0.5) * 6))\<rparr>, e2))"

definition generateOxygenSat :: "real option \<Rightarrow> real option \<Rightarrow> env \<Rightarrow> real \<times> env" where
  "generateOxygenSat lastValue stability_arg e =
     (let stability = (case stability_arg of None \<Rightarrow> 0.95 | Some s \<Rightarrow> s);
          baseSat = or_default lastValue 98;
          (r, e1) = Math_random e;
          variation = (r - 0.5) * 2
      in (max 85 (min 100 (baseSat * stability + variation)), e1))"

definition generateTemperature :: "real option \<Rightarrow> env \<Rightarrow> real \<times> env" where
  "generateTemperature lastValue e =
     (let baseTemp = or_default lastValue 98.6;
          (r, e1) = Math_random e;
          variation = (r - 0.5) * 0.5
      in (max 95 (min 104 (baseTemp + variation)), e1))"

text \<open>The locals of \<^verbatim>\<open>extractVitalSigns\<close> before the quality factor is applied.\<close>

record baseVitals =
  base_heartRate :: real
  base_systolic :: real
  base_diastolic :: real
  base_oxygenSat :: real
  base_temperature :: real

definition defaultVitals :: baseVitals where
  "defaultVitals =
     \<lparr>base_heartRate = 72, base_systolic = 120, base_diastolic = 80, base_oxygenSat = 98,
      base_temperature = 98.6\<rparr>"

text \<open>The \<^verbatim>\<open>switch (bleFrame.position)\<close>; \<^verbatim>\<open>torso_front\<close> has no case and keeps the defaults.\<close>

fun positionVitals :: "position \<Rightarrow> VitalSignsReading option \<Rightarrow> env \<Rightarrow> baseVitals \<times> env" where
  "positionVitals chest lastReading e =
     (let (hr, e1) = generateHeartRate (map_option heartRate lastReading) (Some 0.8) e
      in (defaultVitals\<lparr>base_heartRate := hr\<rparr>, e1))"
| "positionVitals wrist lastReading e =
     (let (hr, e1) = generateHeartRate (map_option heartRate lastReading) (Some 0.9) e;
          (ox, e2) = generateOxygenSat (map_option oxygenSaturation lastReading) (Some 0.9) e1
      in (defaultVitals\<lparr>base_heartRate := hr, base_oxygenSat := ox\<rparr>, e2))"
| "positionVitals arm lastReading e =
     (let (bp, e1) = generateBloodPressure (map_option bloodPressure lastReading) e
      in (defaultVitals\<lparr>base_systolic := systolic bp, base_diastolic := diastolic bp\<rparr>, e1))"
| "positionVitals head lastReading e =
     (let (t, e1) = generateTemperature (map_option temperature lastReading) e
      in (defaultVitals\<lparr>base_temperature := t\<rparr>, e1))"
| "positionVitals torso_back lastReading e =
     (let (hr, e1) = generateHeartRate (map_option heartRate lastReading) (Some 0.7) e;
          (t, e2) = generateTemperature (map_option temperature lastReading) e1
      in (defaultVitals\<lparr>base_heartRate := hr, base_temperature := t\<rparr>, e2))"
| "positionVitals torso_front lastReading e = (defaultVitals, e)"

definition classify :: "BLEWBANFrame \<Rightarrow> signalQuality" where
  "classify f =
     (if rssi f < - 70 \<or> \<not> frameDecoded f then poor
      else if rssi f < - 60 then fair
      else if rssi f < - 50 then good
      else excellent)"

definition qualityFactor :: "signalQuality \<Rightarrow> real" where
  "qualityFactor q =
     (if q = excellent then 1 else if q = good then 0.95 else if q = fair then 0.85 else 0.7)"

subsection \<open>Double-precision products\<close>

text \<open>
  \<open>rne\<close> rounds to the nearest integer, a tie to the even one. \<open>expo x\<close> is the binary
  exponent of a non-zero \<open>x\<close>, the integer \<open>e\<close> with \<open>2\<^sup>e \<le> |x| < 2\<^sup>e\<^sup>+\<^sup>1\<close>. \<open>double x\<close> is the
  double nearest to \<open>x\<close>: 53 significant bits above the exponent, which is kept at -1022 for
  the subnormal numbers (overflow to infinity lies outside the numbers met here).
  \<open>double_mul\<close> is the product of two numbers as doubles; a decimal literal of the source,
  such as 0.7, is the double nearest to it.
\<close>

definition rne :: "real \<Rightarrow> int" where
  "rne x =
     (let n = \<lfloor>x\<rfloor>
      in if x - of_int n < 1/2 then n
         else if x - of_int n > 1/2 then n + 1
         else if even n then n else n + 1)"

definition expo :: "real \<Rightarrow> int" where
  "expo x =
     (if 1 \<le> \<bar>x\<bar> then int (floorlog 2 (nat \<lfloor>\<bar>x\<bar>\<rfloor>)) - 1
      else - int (floorlog 2 (nat (\<lceil>1 / \<bar>x\<bar>\<rceil> - 1))))"

definition double :: "real \<Rightarrow> real" where
  "double x =
     (if x = 0 then 0
      else (let e = max (expo x) (- 1022)
            in of_int (rne (x * 2 powi (52 - e))) * 2 powi (e - 52)))"

definition double_mul :: "real \<Rightarrow> real \<Rightarrow> real" where
  "double_mul x y = double (double x * double y)"

definition extractVitalSigns :: "BLEWBANFrame \<Rightarrow> world \<Rightarrow> VitalSignsReading \<times> world" where
  "extractVitalSigns f ge =
     (let (g, e) = ge;
          lastReading = lastReadings g (deviceId f);
          quality = classify f;
          (b, e1) = positionVitals (position f) lastReading e;
          qf = qualityFactor quality;
          reading =
            \<lparr>heartRate = of_int (round (double_mul (base_heartRate b) qf)),
             bloodPressure =
               \<lparr>systolic = of_int (round (double_mul (base_systolic b) qf)),
                diastolic = of_int (round (double_mul (base_diastolic b) qf))\<rparr>,
             oxygenSaturation = of_int (round (double_mul (base_oxygenSat b) qf)),
             temperature =
               of_int (round (double_mul (double_mul (base_temperature b) qf) 10)) / 10,
             reading_timestamp = timestamp f,
             signalQuality = quality,
             batteryLevel = max 10 (100 - real (frameCounter g) * 0.01),
             connectionStatus =
               (if signalStrength f > 70 then connected
                else if signalStrength f > 40 then weak else disconnected)\<rparr>
      in (reading, g\<lparr>lastReadings := (lastReadings g)(deviceId f \<mapsto> reading)\<rparr>, e1))"

subsection \<open>aggregateVitalSigns\<close>

text \<open>
  On an empty array \<^verbatim>\<open>bestReading\<close> is \<^verbatim>\<open>undefined\<close> and no heart rate is positive, so
  reading \<^verbatim>\<open>bestReading.heartRate\<close> throws a \<^verbatim>\<open>TypeError\<close>. The mean handed to
  \<^verbatim>\<open>Math.round\<close> is a quotient of a sum of heart rates by their number; the heart rates
  the generator passes are whole numbers, so the quotient is either exactly halfway
  between two whole numbers, where the double is exact, or far from halfway.
\<close>

datatype error = TypeError

definition aggregateVitalSigns :: "VitalSignsReading list \<Rightarrow> error + VitalSignsReading" where
  "aggregateVitalSigns readings =
     (let chestReading = find (\<lambda>r. signalQuality r = excellent) readings;
          goodReadings = filter (\<lambda>r. signalQuality r \<noteq> poor) readings;
          bestReading =
            (case chestReading of
               Some r \<Rightarrow> Some r
             | None \<Rightarrow>
                 (case goodReadings of
                    r # _ \<Rightarrow> Some r
                  | [] \<Rightarrow> (case readings of r # _ \<Rightarrow> Some r | [] \<Rightarrow> None)));
          hrReadings = filter (\<lambda>r. heartRate r > 0) readings
      in case bestReading of
           None \<Rightarrow> Inl TypeError
         | Some best \<Rightarrow>
             (let avgHeartRate =
                    (if length hrReadings > 0
                     then of_int (round (foldl (\<lambda>sum r. sum + heartRate r) 0 hrReadings
                                          / real (length hrReadings)))
                     else heartRate best)
              in Inr (best\<lparr>heartRate := avgHeartRate,
                           signalQuality :=
                             (if real (length goodReadings) > real (length readings) / 2
                              then good else fair),
                           connectionStatus :=
                             (if list_all (\<lambda>r. connectionStatus r = connected) readings
                              then connected
                              else if list_ex (\<lambda>r. connectionStatus r = connected) readings
                              then weak else disconnected)\<rparr>)))"

subsection \<open>generateWBANReading\<close>

record networkStats =
  totalDevices :: nat
  activeDevices :: nat
  averageRSSI :: real
  packetLossRate :: real
  encryptionStatus :: string

record WBANReading =
  patientId :: string
  vitals :: VitalSignsReading
  bleFrames :: "BLEWBANFrame list"
  networkStats :: networkStats

text \<open>
  The \<^verbatim>\<open>WBAN_POSITIONS.forEach\<close> loop: one frame and one derived reading per sensor, pushed
  on the two arrays.
\<close>

fun forEachSensor ::
  "string \<Rightarrow> sensor list \<Rightarrow> BLEWBANFrame list \<times> VitalSignsReading list \<Rightarrow> world \<Rightarrow>
     (BLEWBANFrame list \<times> VitalSignsReading list) \<times> world" where
  "forEachSensor pid [] acc ge = (acc, ge)"
| "forEachSensor pid (s # rest) (frames, vitalReadings) ge =
     (let (frame, ge1) = generateBLEFrame (pid @ ''_'' @ sensor_id s) (sensor_position s) ge;
          (v, ge2) = extractVitalSigns frame ge1
      in forEachSensor pid rest (frames @ [frame], vitalReadings @ [v]) ge2)"

definition generateWBANReading :: "string \<Rightarrow> world \<Rightarrow> (error + WBANReading) \<times> world" where
  "generateWBANReading pid ge =
     (let ((frames, vitalReadings), ge1) = forEachSensor pid WBAN_POSITIONS ([], []) ge
      in case aggregateVitalSigns vitalReadings of
           Inl err \<Rightarrow> (Inl err, ge1)
         | Inr aggregatedVitals \<Rightarrow>
             (let activeFrames = filter frameDecoded frames;
                  avgRSSI = foldl (\<lambda>sum f. sum + rssi f) 0 frames / real (length frames);
                  packetLoss =
                    (real (length frames) - real (length activeFrames)) / real (length frames)
              in (Inr \<lparr>patientId = pid,
                       vitals = aggregatedVitals,
                       bleFrames = frames,
                       networkStats =
                         \<lparr>totalDevices = length WBAN_POSITIONS,
                          activeDevices = length activeFrames,
                          averageRSSI = of_int (round (double_mul avgRSSI 10)) / 10,
                          packetLossRate = of_int (round (double_mul packetLoss 1000)) / 10,
                          encryptionStatus = ''AES-256''\<rparr>\<rparr>, ge1)))"

subsection \<open>Sequences of calls on one generator instance\<close>

text \<open>
  The public methods of the class. A run threads one generator through a list of calls
  and records, in call order, every frame that \<^verbatim>\<open>generateBLEFrame\<close> returned and every
  reading that \<^verbatim>\<open>extractVitalSigns\<close> returned, those made inside \<^verbatim>\<open>generateWBANReading\<close>
  included.
\<close>

datatype call =
  GenerateBLEFrame string position
| ExtractVitalSigns BLEWBANFrame
| GenerateWBANReading string

fun step :: "call \<Rightarrow> world \<Rightarrow> (BLEWBANFrame list \<times> VitalSignsReading list) \<times> world" where
  "step (GenerateBLEFrame dev pos) ge =
     (let (f, ge1) = generateBLEFrame dev pos ge in (([f], []), ge1))"
| "step (ExtractVitalSigns f) ge =
     (let (v, ge1) = extractVitalSigns f ge in (([], [v]), ge1))"
| "step (GenerateWBANReading pid) ge =
     (fst (forEachSensor pid WBAN_POSITIONS ([], []) ge), snd (generateWBANReading pid ge))"

fun run :: "call list \<Rightarrow> world \<Rightarrow> (BLEWBANFrame list \<times> VitalSignsReading list) \<times> world" where
  "run [] ge = (([], []), ge)"
| "run (c # cs) ge =
     (let ((fs, vs), ge1) = step c ge;
          ((fs', vs'), ge2) = run cs ge1
      in ((fs @ fs', vs @ vs'), ge2))"

subsection \<open>Concrete inputs\<close>

text \<open>
  An environment whose every draw is the same number \<open>c\<close> and whose clock reads 0; the
  frame that a fresh generator makes of it for a device; and the reading derived from that
  frame by the same generator.
\<close>

definition constant_env :: "real \<Rightarrow> env" where
  "constant_env c = \<lparr>randoms = \<lambda>_. unit01_of c, clock = \<lambda>_. 0\<rparr>"

definition sample_frame :: "real \<Rightarrow> string \<Rightarrow> position \<Rightarrow> BLEWBANFrame" where
  "sample_frame c dev pos = fst (generateBLEFrame dev pos (constructor (constant_env c)))"

definition sample_reading :: "real \<Rightarrow> string \<Rightarrow> position \<Rightarrow> VitalSignsReading" where
  "sample_reading c dev pos =
     fst (extractVitalSigns (sample_frame c dev pos)
            (snd (generateBLEFrame dev pos (constructor (constant_env c)))))"

text \<open>
  The generator after the first left-wrist reading of patient P001, every draw \<open>c\<close>, the
  second frame it makes for that sensor, and the reading derived from that frame.
\<close>

definition second_wrist_world :: "real \<Rightarrow> world" where
  "second_wrist_world c =
     snd (extractVitalSigns (sample_frame c ''P001_wrist_l'' wrist)
            (snd (generateBLEFrame ''P001_wrist_l'' wrist (constructor (constant_env c)))))"

definition second_wrist_frame :: "real \<Rightarrow> BLEWBANFrame" where
  "second_wrist_frame c = fst (generateBLEFrame ''P001_wrist_l'' wrist (second_wrist_world c))"

definition second_wrist_reading :: "real \<Rightarrow> VitalSignsReading" where
  "second_wrist_reading c =
     fst (extractVitalSigns (second_wrist_frame c)
            (snd (generateBLEFrame ''P001_wrist_l'' wrist (second_wrist_world c))))"

subsection \<open>Traces of a run\<close>

text \<open>
  The battery level that \<^verbatim>\<open>extractVitalSigns\<close> reports at frame counter \<open>c\<close>; frames
  numbered consecutively from counter \<open>c\<close> to counter \<open>c'\<close>; readings whose battery
  levels fall, between those of the two counters; and a frame and its reading when the
  noise-factor map \<open>m\<close> has no entry for the frame's device.
\<close>

definition battery_at :: "nat \<Rightarrow> real" where
  "battery_at c = max 10 (100 - real c * 0.01)"

definition numbered :: "nat \<Rightarrow> BLEWBANFrame list \<Rightarrow> nat \<Rightarrow> bool" where
  "numbered c fs c' = (c' = c + length fs \<and> map frameNumber fs = [Suc c ..< Suc c'])"

definition draining :: "nat \<Rightarrow> VitalSignsReading list \<Rightarrow> nat \<Rightarrow> bool" where
  "draining c vs c' =
     (c \<le> c' \<and> sorted_wrt (\<lambda>a b. batteryLevel b \<le> batteryLevel a) vs \<and>
      list_all (\<lambda>v. battery_at c' \<le> batteryLevel v \<and> batteryLevel v \<le> battery_at c) vs)"

definition missed :: "(string \<rightharpoonup> real) \<Rightarrow> BLEWBANFrame \<Rightarrow> VitalSignsReading \<Rightarrow> bool" where
  "missed m f r =
     (m (deviceId f) = None \<and> - 50 \<le> rssi f \<and> rssi f < - 30 \<and>
      signalQuality r = (if frameDecoded f then excellent else poor) \<and>
      (connectionStatus r = connected \<or> connectionStatus r = weak))"

text \<open>One direct frame request followed by one network reading.\<close>

definition sample_calls :: "call list" where
  "sample_calls = [GenerateBLEFrame ''P001_chest'' chest, GenerateWBANReading ''P001'']"

subsection \<open>The wrist oxygen-saturation walk as the specification words it\<close>

text \<open>
  Section 4.2 of the specification: \<^verbatim>\<open>clamp(lastValue * s + uniform(-a/2, a/2), lo, hi)\<close>
  with \<open>s = 0.95\<close>, \<open>a = 2\<close> and the band from 85 to 100; \<open>u\<close> is the perturbation.
\<close>

definition spec_wrist_oxygenSat :: "real \<Rightarrow> real \<Rightarrow> real" where
  "spec_wrist_oxygenSat lastValue u = max 85 (min 100 (lastValue * 0.95 + u))"

section \<open>Basic facts\<close>

lemma val_unit01_of: "val (unit01_of x) = (if 0 \<le> x \<and> x < 1 then x else 0)"
  by transfer simp

lemma val_range: "0 \<le> val u" "val u < 1"
  using val [of u] by simp_all

lemma Math_random_range: "0 \<le> fst (Math_random e)" "fst (Math_random e) < 1"
  by (simp_all add: Math_random_def val_range)

lemma random_array_numeral:
  "random_array (numeral k) f e =
     (let (r, e1) = Math_random e; (xs, e2) = random_array (pred_numeral k) f e1
      in (f r # xs, e2))"
  by (simp add: numeral_eq_Suc)

subsection \<open>Evaluation on an environment whose every draw is the same number\<close>

lemma Math_random_constant: "Math_random (constant_env c) = (val (unit01_of c), constant_env c)"
  by (simp add: Math_random_def constant_env_def)

lemma Date_now_constant: "Date_now (constant_env c) = (0, constant_env c)"
  by (simp add: Date_now_def constant_env_def)

lemma random_array_constant:
  "random_array n f (constant_env c) = (replicate n (f (val (unit01_of c))), constant_env c)"
  by (induction n) (simp_all add: Math_random_constant)

lemma constructor_constant:
  "constructor (constant_env c) =
     (\<lparr>frameCounter = 0, lastReadings = Map.empty,
       signalNoiseFactors =
         [''chest'' \<mapsto> val (unit01_of c) * 0.1 + 0.9,
          ''wrist_l'' \<mapsto> val (unit01_of c) * 0.1 + 0.9,
          ''wrist_r'' \<mapsto> val (unit01_of c) * 0.1 + 0.9,
          ''head'' \<mapsto> val (unit01_of c) * 0.1 + 0.9,
          ''arm_l'' \<mapsto> val (unit01_of c) * 0.1 + 0.9,
          ''torso_back'' \<mapsto> val (unit01_of c) * 0.1 + 0.9]\<rparr>, constant_env c)"
  by (simp add: constructor_def WBAN_POSITIONS_def Math_random_constant)

lemmas eval_constant =
  generateBLEFrame_def Math_random_constant Date_now_constant random_array_constant
  constructor_constant draw_txPower_def val_unit01_of noiseLevel_of_def Let_def BLE_CHANNELS_def
  extractVitalSigns_def classify_def qualityFactor_def generateHeartRate_def
  generateOxygenSat_def generateBloodPressure_def generateTemperature_def or_default_def
  defaultVitals_def sample_frame_def sample_reading_def

lemmas eval_double =
  double_mul_def double_def expo_def rne_def Let_def compute_floorlog power_int_minus round_def

subsection \<open>What one generateBLEFrame call does\<close>

lemma generateBLEFrame_frameNumber:
  "frameNumber (fst (generateBLEFrame dev pos (g, e))) = frameCounter g + 1"
  by (simp add: generateBLEFrame_def Let_def split_def)

lemma generateBLEFrame_generator:
  "fst (snd (generateBLEFrame dev pos (g, e))) = g\<lparr>frameCounter := frameCounter g + 1\<rparr>"
  by (simp add: generateBLEFrame_def Let_def split_def)

lemma generateBLEFrame_deviceId: "deviceId (fst (generateBLEFrame dev pos (g, e))) = dev"
  by (simp add: generateBLEFrame_def Let_def split_def)

lemma generateBLEFrame_position: "position (fst (generateBLEFrame dev pos (g, e))) = pos"
  by (simp add: generateBLEFrame_def Let_def split_def)

lemma generateBLEFrame_signalStrength:
  "signalStrength (fst (generateBLEFrame dev pos ge)) =
     max 0 (min 100 ((rssi (fst (generateBLEFrame dev pos ge)) + 100) * 1.25))"
  by (simp add: generateBLEFrame_def Let_def split_def)

lemma BLE_CHANNELS_length: "length BLE_CHANNELS = 39"
  by (simp add: BLE_CHANNELS_def)

lemma generateBLEFrame_rssi_eq:
  "rssi (fst (generateBLEFrame dev pos (g, e))) =
     - 40 + (fst (Math_random
                   (snd (random_array 10 (\<lambda>r. (r - 0.5) * 0.02)
                     (snd (random_array 10 (\<lambda>r. (r - 0.5) * 0.02)
                       (snd (Math_random (snd (Math_random (snd (draw_txPower e))))))))))) * 20 - 10)
            * (1 / noiseLevel_of g dev)"
  by (simp add: generateBLEFrame_def Let_def split_def noiseLevel_of_def)

lemma generateBLEFrame_rssi:
  "\<exists>r. 0 \<le> r \<and> r < 1 \<and>
     rssi (fst (generateBLEFrame dev pos (g, e))) = - 40 + (r * 20 - 10) * (1 / noiseLevel_of g dev)"
  unfolding generateBLEFrame_rssi_eq
  by (intro exI conjI) (rule Math_random_range, rule Math_random_range, rule refl)

lemma channel_index: "nat \<lfloor>fst (Math_random e) * real (length BLE_CHANNELS)\<rfloor> < length BLE_CHANNELS"
proof -
  let ?r = "fst (Math_random e)"
  have "?r * 39 < 39"
    using Math_random_range(2) [of e] by simp
  then have "\<lfloor>?r * 39\<rfloor> < 39"
    by (simp add: floor_less_iff)
  then have "nat \<lfloor>?r * 39\<rfloor> < 39"
    by linarith
  then show ?thesis
    by (simp add: BLE_CHANNELS_length)
qed

lemma generateBLEFrame_channel:
  "channelNumber (fst (generateBLEFrame dev pos ge)) \<in> set BLE_CHANNELS"
  "frequency (fst (generateBLEFrame dev pos ge)) =
     2402000000 + channelNumber (fst (generateBLEFrame dev pos ge)) * 2000000"
  unfolding generateBLEFrame_def Let_def split_def
  using channel_index by (simp_all del: length_greater_0_conv)

subsection \<open>What one extractVitalSigns call does\<close>

lemma qualityFactor_range: "0 < qualityFactor q" "qualityFactor q \<le> 1"
  by (simp_all add: qualityFactor_def)

lemma positionVitals_heartRate:
  "50 \<le> base_heartRate (fst (positionVitals p lastReading e))"
  "base_heartRate (fst (positionVitals p lastReading e)) \<le> 150"
  by (cases p; simp add: generateHeartRate_def generateOxygenSat_def generateBloodPressure_def
      generateTemperature_def Let_def split_def defaultVitals_def)+

lemma positionVitals_systolic:
  "90 \<le> base_systolic (fst (positionVitals p lastReading e))"
  "base_systolic (fst (positionVitals p lastReading e)) \<le> 180"
  by (cases p; simp add: generateHeartRate_def generateOxygenSat_def generateBloodPressure_def
      generateTemperature_def Let_def split_def defaultVitals_def)+

lemma positionVitals_diastolic:
  "60 \<le> base_diastolic (fst (positionVitals p lastReading e))"
  "base_diastolic (fst (positionVitals p lastReading e)) \<le> 120"
  by (cases p; simp add: generateHeartRate_def generateOxygenSat_def generateBloodPressure_def
      generateTemperature_def Let_def split_def defaultVitals_def)+

lemma positionVitals_oxygenSat:
  "85 \<le> base_oxygenSat (fst (positionVitals p lastReading e))"
  "base_oxygenSat (fst (positionVitals p lastReading e)) \<le> 100"
  by (cases p; simp add: generateHeartRate_def generateOxygenSat_def generateBloodPressure_def
      generateTemperature_def Let_def split_def defaultVitals_def)+

lemma positionVitals_temperature:
  "95 \<le> base_temperature (fst (positionVitals p lastReading e))"
  "base_temperature (fst (positionVitals p lastReading e)) \<le> 104"
  by (cases p; simp add: generateHeartRate_def generateOxygenSat_def generateBloodPressure_def
      generateTemperature_def Let_def split_def defaultVitals_def)+

lemma extractVitalSigns_reading:
  "fst (extractVitalSigns f (g, e)) =
     (let b = fst (positionVitals (position f) (lastReadings g (deviceId f)) e);
          qf = qualityFactor (classify f)
      in \<lparr>heartRate = of_int (round (double_mul (base_heartRate b) qf)),
          bloodPressure =
            \<lparr>systolic = of_int (round (double_mul (base_systolic b) qf)),
             diastolic = of_int (round (double_mul (base_diastolic b) qf))\<rparr>,
          oxygenSaturation = of_int (round (double_mul (base_oxygenSat b) qf)),
          temperature =
            of_int (round (double_mul (double_mul (base_temperature b) qf) 10)) / 10,
          reading_timestamp = timestamp f,
          signalQuality = classify f,
          batteryLevel = max 10 (100 - real (frameCounter g) * 0.01),
          connectionStatus =
            (if signalStrength f > 70 then connected
             else if signalStrength f > 40 then weak else disconnected)\<rparr>)"
  by (simp add: extractVitalSigns_def Let_def split_def)

lemma extractVitalSigns_generator:
  "fst (snd (extractVitalSigns f (g, e))) =
     g\<lparr>lastReadings := (lastReadings g)(deviceId f \<mapsto> fst (extractVitalSigns f (g, e)))\<rparr>"
  by (simp add: extractVitalSigns_def Let_def split_def)

subsection \<open>Double-precision products are close to the exact ones\<close>

lemma rne_close: "\<bar>of_int (rne x) - x\<bar> \<le> 1/2"
  unfolding rne_def Let_def by (auto; linarith)

lemma expo_ge1:
  assumes "1 \<le> x"
  shows "0 \<le> expo x" and "2 powi expo x \<le> x"
proof -
  let ?n = "nat \<lfloor>x\<rfloor>"
  have n: "0 < ?n"
    using assms by simp
  then have k: "1 \<le> floorlog 2 ?n"
    by (simp add: floorlog_def)
  have e: "expo x = int (floorlog 2 ?n - 1)"
    using assms k by (simp add: expo_def)
  show "0 \<le> expo x"
    unfolding e by simp
  have "(2::nat) ^ (floorlog 2 ?n - 1) \<le> ?n"
    using floorlog_bounds [of ?n 2] n by simp
  then have "real ((2::nat) ^ (floorlog 2 ?n - 1)) \<le> real ?n"
    by (rule of_nat_mono)
  also have "real ?n \<le> x"
    using assms by simp
  finally show "2 powi expo x \<le> x"
    unfolding e by simp
qed

lemma double_close:
  assumes "1 \<le> x"
  shows "\<bar>double x - x\<bar> \<le> x / 2 ^ 53"
proof -
  let ?e = "expo x"
  let ?s = "(2::real) powi (52 - ?e)"
  have s: "0 < ?s"
    by simp
  have inv: "(2::real) powi (?e - 52) = 1 / ?s"
    by (simp add: power_int_diff)
  have small: "1 / ?s \<le> x / 2 ^ 52"
    using expo_ge1(2) [OF assms] by (simp add: power_int_diff divide_right_mono)
  have d: "double x = of_int (rne (x * ?s)) / ?s"
    using assms expo_ge1(1) [OF assms] by (simp add: double_def Let_def inv max_def)
  have "double x - x = (of_int (rne (x * ?s)) - x * ?s) / ?s"
    unfolding d using s by (simp add: field_simps)
  then have "\<bar>double x - x\<bar> = \<bar>of_int (rne (x * ?s)) - x * ?s\<bar> / ?s"
    using s by (simp add: abs_divide)
  also have "\<dots> \<le> (1/2) / ?s"
    using rne_close [of "x * ?s"] s by (intro divide_right_mono) simp_all
  also have "\<dots> = (1 / ?s) / 2"
    by simp
  also have "\<dots> \<le> (x / 2 ^ 52) / 2"
    using small by simp
  finally show ?thesis
    by simp
qed

lemma double_factors:
  "double 1 = 1" "double 10 = 10"
  "\<bar>double 0.95 - 0.95\<bar> \<le> 1 / 2 ^ 53" "0 \<le> double 0.95" "double 0.95 \<le> 10"
  "\<bar>double 0.85 - 0.85\<bar> \<le> 1 / 2 ^ 53" "0 \<le> double 0.85" "double 0.85 \<le> 10"
  "\<bar>double 0.7 - 0.7\<bar> \<le> 1 / 2 ^ 53" "0 \<le> double 0.7" "double 0.7 \<le> 10"
  by (simp_all add: eval_double)

lemma double_factor:
  assumes "y \<in> {1, 0.95, 0.85, 0.7, 10}"
  shows "\<bar>double y - y\<bar> \<le> 1 / 2 ^ 53 \<and> 0 \<le> double y \<and> double y \<le> 10"
proof -
  from assms consider "y = 1" | "y = 0.95" | "y = 0.85" | "y = 0.7" | "y = 10"
    by blast
  then show ?thesis
  proof cases
    case 1
    show ?thesis unfolding 1 using double_factors by simp
  next
    case 2
    show ?thesis unfolding 2 using double_factors by simp
  next
    case 3
    show ?thesis unfolding 3 using double_factors by simp
  next
    case 4
    show ?thesis unfolding 4 using double_factors by simp
  next
    case 5
    show ?thesis unfolding 5 using double_factors by simp
  qed
qed

lemma double_mul_close:
  assumes x: "2 \<le> x" "x \<le> 2000" and y: "y \<in> {1, 0.95, 0.85, 0.7, 10}"
  shows "\<bar>double_mul x y - x * y\<bar> \<le> 1 / 1000000000"
proof -
  define a where "a = double x"
  define b where "b = double y"
  define u :: real where "u = 1 / 2 ^ 53"
  have u: "0 < u" "u \<le> 1 / 1000000000000000"
    by (simp_all add: u_def)
  have a: "\<bar>a - x\<bar> \<le> 2000 * u"
    using double_close [of x] x by (simp add: a_def u_def)
  have b: "\<bar>b - y\<bar> \<le> u" "0 \<le> b" "b \<le> 10"
    using double_factor [OF y] by (simp_all add: b_def u_def)
  have y': "0.7 \<le> y" "y \<le> 10"
    using y by auto
  have "a * b - x * y = (a - x) * b + x * (b - y)"
    by (simp add: algebra_simps)
  then have "\<bar>a * b - x * y\<bar> \<le> \<bar>a - x\<bar> * \<bar>b\<bar> + \<bar>x\<bar> * \<bar>b - y\<bar>"
    by (metis abs_mult abs_triangle_ineq)
  also have "\<dots> \<le> (2000 * u) * 10 + 2000 * u"
    using a b x u by (intro add_mono mult_mono) simp_all
  finally have p: "\<bar>a * b - x * y\<bar> \<le> 22000 * u"
    by simp
  have "1.4 \<le> x * y"
    using mult_mono [of 2 x "0.7" y] x y' by simp
  with p u have p1: "1 \<le> a * b"
    by linarith
  have "x * y \<le> 20000"
    using mult_mono [of x 2000 y 10] x y' by simp
  with p u have p2: "a * b \<le> 20001"
    by linarith
  have "\<bar>double (a * b) - a * b\<bar> \<le> 20001 * u"
    using double_close [OF p1] p2 by (simp add: u_def)
  with p have "\<bar>double (a * b) - x * y\<bar> \<le> 42001 * u"
    by linarith
  with u show ?thesis
    unfolding double_mul_def a_def [symmetric] b_def [symmetric] by simp
qed

lemma round_between:
  fixes m y :: real
  assumes "a \<le> y" "y \<le> b" "\<bar>m - y\<bar> \<le> 1/4"
  shows "\<lfloor>a\<rfloor> \<le> round m" and "round m \<le> \<lceil>b\<rceil>"
proof -
  have "of_int \<lfloor>a\<rfloor> \<le> m + 1/2"
    using assms of_int_floor_le [of a] by linarith
  then show "\<lfloor>a\<rfloor> \<le> round m"
    by (simp add: round_def le_floor_iff)
  have "m + 1/2 < of_int \<lceil>b\<rceil> + 1"
    using assms le_of_int_ceiling [of b] by linarith
  then show "round m \<le> \<lceil>b\<rceil>"
    by (simp add: round_def floor_le_iff)
qed

lemma qualityFactor_cases: "qualityFactor s \<in> {1, 0.95, 0.85, 0.7, 10}"
  by (cases s) (simp_all add: qualityFactor_def)

lemma scaled_between:
  assumes "lo \<le> x" "x \<le> hi" "2 \<le> lo" "hi \<le> 2000"
  shows "real_of_int \<lfloor>lo * qualityFactor s\<rfloor> \<le> of_int (round (double_mul x (qualityFactor s)))"
    and "real_of_int (round (double_mul x (qualityFactor s))) \<le> of_int \<lceil>hi * qualityFactor s\<rceil>"
proof -
  let ?q = "qualityFactor s"
  have q: "0 \<le> ?q"
    using qualityFactor_range(1) [of s] by simp
  have c: "\<bar>double_mul x ?q - x * ?q\<bar> \<le> 1/4"
    using double_mul_close [of x ?q] qualityFactor_cases [of s] assms by simp
  have l: "lo * ?q \<le> x * ?q" and h: "x * ?q \<le> hi * ?q"
    using assms q by (simp_all add: mult_right_mono)
  show "real_of_int \<lfloor>lo * ?q\<rfloor> \<le> of_int (round (double_mul x ?q))"
    using round_between(1) [OF l h c] by simp
  show "real_of_int (round (double_mul x ?q)) \<le> of_int \<lceil>hi * ?q\<rceil>"
    using round_between(2) [OF l h c] by simp
qed

lemma scaled_between10:
  assumes "95 \<le> t" "t \<le> 104"
  shows "real_of_int \<lfloor>950 * qualityFactor s\<rfloor> / 10 \<le>
      of_int (round (double_mul (double_mul t (qualityFactor s)) 10)) / 10"
    and "real_of_int (round (double_mul (double_mul t (qualityFactor s)) 10)) / 10 \<le>
      of_int \<lceil>1040 * qualityFactor s\<rceil> / 10"
proof -
  let ?q = "qualityFactor s"
  let ?m = "double_mul t ?q"
  have q: "0.7 \<le> ?q" "?q \<le> 1"
    using qualityFactor_range(2) [of s] by (cases s; simp add: qualityFactor_def)+
  have tq: "66.5 \<le> t * ?q" "t * ?q \<le> 104"
    using mult_mono [of 95 t "0.7" ?q] mult_mono [of t 104 ?q 1] assms q by simp_all
  have c1: "\<bar>?m - t * ?q\<bar> \<le> 1 / 1000000000"
    using double_mul_close [of t ?q] qualityFactor_cases [of s] assms by simp
  have m: "2 \<le> ?m" "?m \<le> 2000"
    using c1 tq by linarith+
  have c2: "\<bar>double_mul ?m 10 - ?m * 10\<bar> \<le> 1 / 1000000000"
    using double_mul_close [of ?m 10] m by simp
  have c: "\<bar>double_mul ?m 10 - t * ?q * 10\<bar> \<le> 1/4"
    using c1 c2 by linarith
  have l: "950 * ?q \<le> t * ?q * 10" and h: "t * ?q * 10 \<le> 1040 * ?q"
    using assms q by simp_all
  show "real_of_int \<lfloor>950 * ?q\<rfloor> / 10 \<le> of_int (round (double_mul ?m 10)) / 10"
    using round_between(1) [OF l h c] by simp
  show "real_of_int (round (double_mul ?m 10)) / 10 \<le> of_int \<lceil>1040 * ?q\<rceil> / 10"
    using round_between(2) [OF l h c] by simp
qed

lemma extractVitalSigns_bands:
  "let r = fst (extractVitalSigns f ge); q = qualityFactor (signalQuality r)
   in of_int \<lfloor>50 * q\<rfloor> \<le> heartRate r \<and> heartRate r \<le> of_int \<lceil>150 * q\<rceil> \<and>
      of_int \<lfloor>90 * q\<rfloor> \<le> systolic (bloodPressure r) \<and>
      systolic (bloodPressure r) \<le> of_int \<lceil>180 * q\<rceil> \<and>
      of_int \<lfloor>60 * q\<rfloor> \<le> diastolic (bloodPressure r) \<and>
      diastolic (bloodPressure r) \<le> of_int \<lceil>120 * q\<rceil> \<and>
      of_int \<lfloor>85 * q\<rfloor> \<le> oxygenSaturation r \<and>
      oxygenSaturation r \<le> of_int \<lceil>100 * q\<rceil> \<and>
      of_int \<lfloor>950 * q\<rfloor> / 10 \<le> temperature r \<and>
      temperature r \<le> of_int \<lceil>1040 * q\<rceil> / 10"
proof (cases ge)
  case (Pair g e)
  show ?thesis
    unfolding Pair extractVitalSigns_reading Let_def
    apply (simp only: VitalSignsReading.simps bloodPressure.simps)
    apply (intro conjI)
    apply (rule scaled_between [OF positionVitals_heartRate]; simp)
    apply (rule scaled_between [OF positionVitals_heartRate]; simp)
    apply (rule scaled_between [OF positionVitals_systolic]; simp)
    apply (rule scaled_between [OF positionVitals_systolic]; simp)
    apply (rule scaled_between [OF positionVitals_diastolic]; simp)
    apply (rule scaled_between [OF positionVitals_diastolic]; simp)
    apply (rule scaled_between [OF positionVitals_oxygenSat]; simp)
    apply (rule scaled_between [OF positionVitals_oxygenSat]; simp)
    apply (rule scaled_between10 [OF positionVitals_temperature])
    apply (rule scaled_between10 [OF positionVitals_temperature])
    done
qed

lemma round_product_close:
  assumes "2 \<le> x" "x \<le> 2000"
  shows "\<bar>real_of_int (round (double_mul x (qualityFactor s))) - x * qualityFactor s\<bar>
    \<le> 1/2 + 1 / 1000000000"
  using double_mul_close [OF assms qualityFactor_cases [of s]]
    of_int_round_abs_le [of "double_mul x (qualityFactor s)"]
  by linarith

lemma BLE_CHANNELS_upt: "BLE_CHANNELS = [0..<11] @ [12..<40]"
  by (simp add: BLE_CHANNELS_def upt_rec)

lemma BLE_CHANNELS_set: "set BLE_CHANNELS = {0..10} \<union> {12..39}"
proof -
  have "set BLE_CHANNELS = {0..<11} \<union> {12..<40}"
    by (simp only: BLE_CHANNELS_upt set_append set_upt)
  also have "\<dots> = {0..10} \<union> {12..39}"
    by auto
  finally show ?thesis .
qed

lemma second_draw: "fst (Math_random (snd (Math_random e))) = val (randoms e 1)"
  by (simp add: Math_random_def)

lemma randoms_constant: "val (randoms (constant_env c) i) = val (unit01_of c)"
  by (simp add: constant_env_def)

subsection \<open>Aggregation\<close>

lemma foldl_heartRate: "foldl (\<lambda>sum r. sum + heartRate r) a rs = a + sum_list (map heartRate rs)"
  by (induction rs arbitrary: a) simp_all

lemma bestReading_nonempty:
  "readings \<noteq> [] \<Longrightarrow>
     (case find P readings of
        Some r \<Rightarrow> Some r
      | None \<Rightarrow>
          (case filter Q readings of
             r # _ \<Rightarrow> Some r
           | [] \<Rightarrow> (case readings of r # _ \<Rightarrow> Some r | [] \<Rightarrow> None))) \<noteq> None"
  by (simp split: option.splits list.splits)

lemma extractVitalSigns_heartRate_whole: "heartRate (fst (extractVitalSigns f ge)) \<in> \<int>"
  by (cases ge) (simp add: extractVitalSigns_reading Let_def)

subsection \<open>Traces compose\<close>

lemma battery_at_antimono: "c \<le> c' \<Longrightarrow> battery_at c' \<le> battery_at c"
  by (simp add: battery_at_def)

lemma battery_at_floor: "10 \<le> battery_at c"
  by (simp add: battery_at_def)

lemma numbered_Nil: "numbered c [] c"
  by (simp add: numbered_def)

lemma numbered_single: "frameNumber f = Suc c \<Longrightarrow> numbered c [f] (Suc c)"
  by (simp add: numbered_def)

lemma upt_split: "i \<le> j \<Longrightarrow> j \<le> k \<Longrightarrow> [i..<k] = [i..<j] @ [j..<k]"
  using upt_add_eq_append [of i j "k - j"] by simp

lemma numbered_append: "numbered a fs b \<Longrightarrow> numbered b gs c \<Longrightarrow> numbered a (fs @ gs) c"
proof -
  assume 1: "numbered a fs b" and 2: "numbered b gs c"
  have "[Suc a ..< Suc c] = [Suc a ..< Suc b] @ [Suc b ..< Suc c]"
    using 1 2 by (intro upt_split) (simp_all add: numbered_def)
  with 1 2 show ?thesis
    by (simp add: numbered_def del: upt_Suc)
qed

lemma draining_Nil: "draining c [] c"
  by (simp add: draining_def)

lemma draining_single: "batteryLevel v = battery_at c \<Longrightarrow> draining c [v] c"
  by (simp add: draining_def)

lemma draining_widen: "draining b vs c \<Longrightarrow> a \<le> b \<Longrightarrow> c \<le> d \<Longrightarrow> draining a vs d"
  unfolding draining_def list_all_iff
  using battery_at_antimono [of a b] battery_at_antimono [of c d]
  by fastforce

lemma draining_append: "draining a vs b \<Longrightarrow> draining b ws c \<Longrightarrow> draining a (vs @ ws) c"
proof -
  assume 1: "draining a vs b" and 2: "draining b ws c"
  have ab: "a \<le> b" and bc: "b \<le> c"
    using 1 2 by (simp_all add: draining_def)
  have "\<forall>x \<in> set vs. \<forall>y \<in> set ws. batteryLevel y \<le> batteryLevel x"
    using 1 2 unfolding draining_def list_all_iff by fastforce
  moreover have "list_all (\<lambda>v. battery_at c \<le> batteryLevel v \<and> batteryLevel v \<le> battery_at a) (vs @ ws)"
    using draining_widen [OF 1 order_refl bc] draining_widen [OF 2 ab order_refl]
    by (simp add: draining_def)
  ultimately show ?thesis
    using 1 2 ab bc by (simp add: draining_def sorted_wrt_append)
qed

subsection \<open>The sensor loop\<close>

lemma forEachSensor_acc:
  "forEachSensor pid ss (fs, vs) ge =
     ((fs @ fst (fst (forEachSensor pid ss ([], []) ge)),
       vs @ snd (fst (forEachSensor pid ss ([], []) ge))),
      snd (forEachSensor pid ss ([], []) ge))"
proof (induction ss arbitrary: fs vs ge)
  case Nil
  show ?case by simp
next
  case (Cons s rest)
  obtain frame ge1 where f:
    "generateBLEFrame (pid @ ''_'' @ sensor_id s) (sensor_position s) ge = (frame, ge1)"
    by (cases "generateBLEFrame (pid @ ''_'' @ sensor_id s) (sensor_position s) ge")
  obtain v ge2 where v: "extractVitalSigns frame ge1 = (v, ge2)"
    by (cases "extractVitalSigns frame ge1")
  show ?case
    using Cons.IH [of "fs @ [frame]" "vs @ [v]" ge2] Cons.IH [of "[frame]" "[v]" ge2] f v
    by simp
qed

lemma forEachSensor_Cons:
  assumes "generateBLEFrame (pid @ ''_'' @ sensor_id s) (sensor_position s) ge = (frame, ge1)"
    and "extractVitalSigns frame ge1 = (v, ge2)"
  shows "forEachSensor pid (s # rest) ([], []) ge =
     ((frame # fst (fst (forEachSensor pid rest ([], []) ge2)),
       v # snd (fst (forEachSensor pid rest ([], []) ge2))),
      snd (forEachSensor pid rest ([], []) ge2))"
  using assms forEachSensor_acc [of pid rest "[frame]" "[v]" ge2] by simp

lemma generateBLEFrame_trace:
  assumes "generateBLEFrame dev pos ge = (f, ge1)"
  shows "numbered (frameCounter (fst ge)) [f] (frameCounter (fst ge1))"
    and "frameCounter (fst ge1) = Suc (frameCounter (fst ge))"
    and "signalNoiseFactors (fst ge1) = signalNoiseFactors (fst ge)"
proof -
  obtain g e where ge: "ge = (g, e)"
    by (cases ge)
  have 1: "frameNumber f = Suc (frameCounter g)"
    using generateBLEFrame_frameNumber [of dev pos g e] assms by (simp add: ge)
  have 2: "fst ge1 = g\<lparr>frameCounter := frameCounter g + 1\<rparr>"
    using generateBLEFrame_generator [of dev pos g e] assms by (simp add: ge)
  show "numbered (frameCounter (fst ge)) [f] (frameCounter (fst ge1))"
    using numbered_single [OF 1] by (simp add: 2 ge)
  show "frameCounter (fst ge1) = Suc (frameCounter (fst ge))"
    by (simp add: 2 ge)
  show "signalNoiseFactors (fst ge1) = signalNoiseFactors (fst ge)"
    by (simp add: 2 ge)
qed

lemma extractVitalSigns_trace:
  assumes "extractVitalSigns f ge = (v, ge1)"
  shows "draining (frameCounter (fst ge)) [v] (frameCounter (fst ge1))"
    and "frameCounter (fst ge1) = frameCounter (fst ge)"
    and "signalNoiseFactors (fst ge1) = signalNoiseFactors (fst ge)"
proof -
  obtain g e where ge: "ge = (g, e)"
    by (cases ge)
  have 1: "batteryLevel v = battery_at (frameCounter g)"
    using extractVitalSigns_reading [of f g e] assms by (simp add: ge Let_def battery_at_def)
  have 2: "fst ge1 = g\<lparr>lastReadings := (lastReadings g)(deviceId f \<mapsto> v)\<rparr>"
    using extractVitalSigns_generator [of f g e] assms by (simp add: ge)
  show "draining (frameCounter (fst ge)) [v] (frameCounter (fst ge1))"
    using draining_single [OF 1] by (simp add: 2 ge)
  show "frameCounter (fst ge1) = frameCounter (fst ge)"
    by (simp add: 2 ge)
  show "signalNoiseFactors (fst ge1) = signalNoiseFactors (fst ge)"
    by (simp add: 2 ge)
qed

lemma forEachSensor_trace:
  "numbered (frameCounter (fst ge)) (fst (fst (forEachSensor pid ss ([], []) ge)))
     (frameCounter (fst (snd (forEachSensor pid ss ([], []) ge)))) \<and>
   draining (frameCounter (fst ge)) (snd (fst (forEachSensor pid ss ([], []) ge)))
     (frameCounter (fst (snd (forEachSensor pid ss ([], []) ge)))) \<and>
   signalNoiseFactors (fst (snd (forEachSensor pid ss ([], []) ge))) = signalNoiseFactors (fst ge)"
proof (induction ss arbitrary: ge)
  case Nil
  show ?case by (simp add: numbered_Nil draining_Nil)
next
  case (Cons s rest)
  obtain frame ge1 where f:
    "generateBLEFrame (pid @ ''_'' @ sensor_id s) (sensor_position s) ge = (frame, ge1)"
    by (cases "generateBLEFrame (pid @ ''_'' @ sensor_id s) (sensor_position s) ge")
  obtain v ge2 where v: "extractVitalSigns frame ge1 = (v, ge2)"
    by (cases "extractVitalSigns frame ge1")
  note ft = generateBLEFrame_trace [OF f] and vt = extractVitalSigns_trace [OF v]
  let ?r = "forEachSensor pid rest ([], []) ge2"
  have n: "numbered (frameCounter (fst ge)) (frame # fst (fst ?r)) (frameCounter (fst (snd ?r)))"
    using numbered_append [OF ft(1), of "fst (fst ?r)" "frameCounter (fst (snd ?r))"]
      Cons.IH [of ge2] vt(2) by simp
  have "draining (frameCounter (fst ge1)) (v # snd (fst ?r)) (frameCounter (fst (snd ?r)))"
    using draining_append [OF vt(1), of "snd (fst ?r)" "frameCounter (fst (snd ?r))"]
      Cons.IH [of ge2] by simp
  then have d: "draining (frameCounter (fst ge)) (v # snd (fst ?r)) (frameCounter (fst (snd ?r)))"
    by (rule draining_widen) (simp_all add: ft(2))
  have s: "signalNoiseFactors (fst (snd ?r)) = signalNoiseFactors (fst ge)"
    using Cons.IH [of ge2] ft(3) vt(3) by simp
  show ?case
    unfolding forEachSensor_Cons [OF f v] using n d s by simp
qed

lemma forEachSensor_length:
  "length (fst (fst (forEachSensor pid ss ([], []) ge))) = length ss \<and>
   length (snd (fst (forEachSensor pid ss ([], []) ge))) = length ss"
proof (induction ss arbitrary: ge)
  case Nil
  show ?case by simp
next
  case (Cons s rest)
  obtain frame ge1 where f:
    "generateBLEFrame (pid @ ''_'' @ sensor_id s) (sensor_position s) ge = (frame, ge1)"
    by (cases "generateBLEFrame (pid @ ''_'' @ sensor_id s) (sensor_position s) ge")
  obtain v ge2 where v: "extractVitalSigns frame ge1 = (v, ge2)"
    by (cases "extractVitalSigns frame ge1")
  show ?case
    unfolding forEachSensor_Cons [OF f v] using Cons.IH [of ge2] by simp
qed

lemma generateWBANReading_world:
  "snd (generateWBANReading pid ge) = snd (forEachSensor pid WBAN_POSITIONS ([], []) ge)"
  by (simp add: generateWBANReading_def split_def Let_def split: sum.splits)

lemma step_trace:
  "numbered (frameCounter (fst ge)) (fst (fst (step c ge))) (frameCounter (fst (snd (step c ge)))) \<and>
   draining (frameCounter (fst ge)) (snd (fst (step c ge))) (frameCounter (fst (snd (step c ge)))) \<and>
   signalNoiseFactors (fst (snd (step c ge))) = signalNoiseFactors (fst ge)"
proof (cases c)
  case (GenerateBLEFrame dev pos)
  obtain f ge1 where f: "generateBLEFrame dev pos ge = (f, ge1)"
    by (cases "generateBLEFrame dev pos ge")
  show ?thesis
    using generateBLEFrame_trace [OF f] draining_widen [OF draining_Nil, of "frameCounter (fst ge)" "frameCounter (fst ge1)"]
    by (simp add: GenerateBLEFrame f)
next
  case (ExtractVitalSigns fr)
  obtain v ge1 where v: "extractVitalSigns fr ge = (v, ge1)"
    by (cases "extractVitalSigns fr ge")
  show ?thesis
    using extractVitalSigns_trace [OF v] numbered_Nil [of "frameCounter (fst ge)"]
    by (simp add: ExtractVitalSigns v)
next
  case (GenerateWBANReading pid)
  show ?thesis
    using forEachSensor_trace [of ge pid WBAN_POSITIONS]
    by (simp add: GenerateWBANReading generateWBANReading_world)
qed

lemma run_trace:
  "numbered (frameCounter (fst ge)) (fst (fst (run cs ge))) (frameCounter (fst (snd (run cs ge)))) \<and>
   draining (frameCounter (fst ge)) (snd (fst (run cs ge))) (frameCounter (fst (snd (run cs ge)))) \<and>
   signalNoiseFactors (fst (snd (run cs ge))) = signalNoiseFactors (fst ge)"
proof (induction cs arbitrary: ge)
  case Nil
  show ?case by (simp add: numbered_Nil draining_Nil)
next
  case (Cons c cs)
  let ?s = "step c ge"
  let ?r = "run cs (snd ?s)"
  have r: "run (c # cs) ge = ((fst (fst ?s) @ fst (fst ?r), snd (fst ?s) @ snd (fst ?r)), snd ?r)"
    by (simp add: split_def Let_def)
  show ?case
    unfolding r
    using step_trace [of ge c] Cons.IH [of "snd ?s"]
    by (auto intro: numbered_append draining_append)
qed

subsection \<open>The constructor and the keys of the noise-factor map\<close>

lemma initNoiseFactors_frameCounter:
  "frameCounter (fst (initNoiseFactors ss ge)) = frameCounter (fst ge)"
proof (induction ss arbitrary: ge)
  case Nil
  show ?case by simp
next
  case (Cons s rest)
  obtain g e where ge: "ge = (g, e)"
    by (cases ge)
  obtain r e1 where r: "Math_random e = (r, e1)"
    by (cases "Math_random e")
  show ?case
    using Cons.IH [of "(g\<lparr>signalNoiseFactors := (signalNoiseFactors g)(sensor_id s \<mapsto> r * 0.1 + 0.9)\<rparr>, e1)"]
    by (simp add: ge r)
qed

lemma constructor_frameCounter: "frameCounter (fst (constructor e)) = 0"
  by (simp add: constructor_def initNoiseFactors_frameCounter)

lemma initNoiseFactors_dom:
  "dom (signalNoiseFactors (fst (initNoiseFactors ss ge))) =
     dom (signalNoiseFactors (fst ge)) \<union> sensor_id ` set ss"
proof (induction ss arbitrary: ge)
  case Nil
  show ?case by simp
next
  case (Cons s rest)
  obtain g e where ge: "ge = (g, e)"
    by (cases ge)
  obtain r e1 where r: "Math_random e = (r, e1)"
    by (cases "Math_random e")
  show ?case
    using Cons.IH [of "(g\<lparr>signalNoiseFactors := (signalNoiseFactors g)(sensor_id s \<mapsto> r * 0.1 + 0.9)\<rparr>, e1)"]
    by (auto simp: ge r split: if_splits)
qed

lemma constructor_keys:
  "dom (signalNoiseFactors (fst (constructor e))) = sensor_id ` set WBAN_POSITIONS"
  by (simp add: constructor_def initNoiseFactors_dom)

lemma sensor_ids:
  "sensor_id ` set WBAN_POSITIONS =
     {''chest'', ''wrist_l'', ''wrist_r'', ''head'', ''arm_l'', ''torso_back''}"
  by (simp add: WBAN_POSITIONS_def)

lemma composite_eq_rev: "(pid @ CHR ''_'' # sid = key) = (rev sid @ CHR ''_'' # rev pid = rev key)"
  using rev_is_rev_conv [of "pid @ CHR ''_'' # sid" key] by simp

lemma composite_id_no_key:
  assumes "s \<in> set WBAN_POSITIONS"
  shows "pid @ ''_'' @ sensor_id s \<notin> sensor_id ` set WBAN_POSITIONS"
proof -
  have "sensor_id s \<in> {''chest'', ''wrist_l'', ''wrist_r'', ''head'', ''arm_l'', ''torso_back''}"
    using assms sensor_ids by blast
  then show ?thesis
    unfolding sensor_ids by (elim insertE emptyE) (simp_all add: composite_eq_rev)
qed

subsection \<open>Frames whose device id misses the noise-factor map\<close>

lemma aggregateVitalSigns_total: "readings \<noteq> [] \<Longrightarrow> \<exists>a. aggregateVitalSigns readings = Inr a"
proof -
  assume ne: "readings \<noteq> []"
  obtain best where
    "(case find (\<lambda>r. signalQuality r = excellent) readings of
        Some r \<Rightarrow> Some r
      | None \<Rightarrow>
          (case filter (\<lambda>r. signalQuality r \<noteq> poor) readings of
             r # _ \<Rightarrow> Some r
           | [] \<Rightarrow> (case readings of r # _ \<Rightarrow> Some r | [] \<Rightarrow> None))) = Some best"
    using bestReading_nonempty [OF ne] by blast
  then show ?thesis
    by (simp add: aggregateVitalSigns_def Let_def)
qed

lemma WBAN_POSITIONS_length: "length WBAN_POSITIONS = 6"
  by (simp add: WBAN_POSITIONS_def)

lemma generateWBANReading_frames:
  "\<exists>nr. fst (generateWBANReading pid ge) = Inr nr \<and>
     bleFrames nr = fst (fst (forEachSensor pid WBAN_POSITIONS ([], []) ge))"
proof -
  let ?vs = "snd (fst (forEachSensor pid WBAN_POSITIONS ([], []) ge))"
  have "length ?vs = 6"
    using forEachSensor_length [of pid WBAN_POSITIONS ge] by (simp add: WBAN_POSITIONS_length)
  then have "?vs \<noteq> []"
    by auto
  then obtain a where "aggregateVitalSigns ?vs = Inr a"
    using aggregateVitalSigns_total by blast
  then show ?thesis
    by (simp add: generateWBANReading_def split_def Let_def)
qed

lemma missed_pair:
  assumes miss: "signalNoiseFactors (fst ge) dev = None"
    and f: "generateBLEFrame dev pos ge = (f, ge1)"
    and v: "extractVitalSigns f ge1 = (v, ge2)"
  shows "missed (signalNoiseFactors (fst ge)) f v" and "deviceId f = dev"
proof -
  obtain g e where ge: "ge = (g, e)"
    by (cases ge)
  obtain g1 e1 where ge1: "ge1 = (g1, e1)"
    by (cases ge1)
  have n: "noiseLevel_of g dev = 1"
    using miss by (simp add: noiseLevel_of_def ge)
  obtain r where r: "0 \<le> r" "r < 1" "rssi f = - 40 + (r * 20 - 10) * (1 / noiseLevel_of g dev)"
    using generateBLEFrame_rssi [of dev pos g e] f by (auto simp: ge)
  have lo: "- 50 \<le> rssi f" and hi: "rssi f < - 30"
    using r by (simp_all add: n)
  have s: "signalStrength f = max 0 (min 100 ((rssi f + 100) * 1.25))"
    using generateBLEFrame_signalStrength [of dev pos ge] f by simp
  have s40: "signalStrength f > 40"
    unfolding s using lo hi by simp
  show d: "deviceId f = dev"
    using generateBLEFrame_deviceId [of dev pos g e] f by (simp add: ge)
  have q: "signalQuality v = classify f"
    and c: "connectionStatus v =
      (if signalStrength f > 70 then connected
       else if signalStrength f > 40 then weak else disconnected)"
    using extractVitalSigns_reading [of f g1 e1] v by (simp_all add: ge1 Let_def)
  have q': "signalQuality v = (if frameDecoded f then excellent else poor)"
    unfolding q classify_def using lo by simp
  show "missed (signalNoiseFactors (fst ge)) f v"
    unfolding missed_def using miss d lo hi q' c s40 by simp
qed

lemma forEachSensor_missed:
  "\<forall>s \<in> set ss. signalNoiseFactors (fst ge) (pid @ ''_'' @ sensor_id s) = None \<Longrightarrow>
     list_all2 (missed (signalNoiseFactors (fst ge)))
       (fst (fst (forEachSensor pid ss ([], []) ge)))
       (snd (fst (forEachSensor pid ss ([], []) ge))) \<and>
     map deviceId (fst (fst (forEachSensor pid ss ([], []) ge))) =
       map (\<lambda>s. pid @ ''_'' @ sensor_id s) ss"
proof (induction ss arbitrary: ge)
  case Nil
  show ?case by simp
next
  case (Cons s rest)
  obtain frame ge1 where f:
    "generateBLEFrame (pid @ ''_'' @ sensor_id s) (sensor_position s) ge = (frame, ge1)"
    by (cases "generateBLEFrame (pid @ ''_'' @ sensor_id s) (sensor_position s) ge")
  obtain v ge2 where v: "extractVitalSigns frame ge1 = (v, ge2)"
    by (cases "extractVitalSigns frame ge1")
  have m: "signalNoiseFactors (fst ge) (pid @ ''_'' @ sensor_id s) = None"
    using Cons.prems by simp
  have same: "signalNoiseFactors (fst ge2) = signalNoiseFactors (fst ge)"
    using generateBLEFrame_trace(3) [OF f] extractVitalSigns_trace(3) [OF v] by simp
  have "\<forall>s \<in> set rest. signalNoiseFactors (fst ge2) (pid @ ''_'' @ sensor_id s) = None"
    using Cons.prems by (simp add: same)
  from Cons.IH [OF this] missed_pair [OF m f v] show ?case
    unfolding forEachSensor_Cons [OF f v] same by simp
qed

subsection \<open>The second reading of a wrist sensor whose frames do not decode\<close>

lemma second_wrist_world_pair: "second_wrist_world 0 = (fst (second_wrist_world 0), constant_env 0)"
  by (simp add: second_wrist_world_def eval_constant)

lemma second_wrist_stored:
  "map_option oxygenSaturation
     (lastReadings (fst (second_wrist_world 0)) ''P001_wrist_l'') = Some 61"
  by (simp add: second_wrist_world_def eval_constant) (simp add: eval_double)

lemma second_wrist_frame_fields:
  "frameDecoded (second_wrist_frame 0) = False"
  "position (second_wrist_frame 0) = wrist"
  "deviceId (second_wrist_frame 0) = ''P001_wrist_l''"
  unfolding second_wrist_frame_def
  by (subst second_wrist_world_pair, simp add: eval_constant)+

lemma second_wrist_generate:
  "snd (generateBLEFrame ''P001_wrist_l'' wrist (second_wrist_world 0)) =
     ((fst (second_wrist_world 0))\<lparr>frameCounter := frameCounter (fst (second_wrist_world 0)) + 1\<rparr>,
      constant_env 0)"
  by (subst second_wrist_world_pair, simp add: eval_constant)

lemma second_wrist_poor: "signalQuality (second_wrist_reading 0) = poor"
  unfolding second_wrist_reading_def second_wrist_generate
  by (simp add: extractVitalSigns_reading Let_def classify_def second_wrist_frame_fields)

lemma second_wrist_base:
  "base_oxygenSat (fst (positionVitals wrist
     (lastReadings (fst (second_wrist_world 0)) ''P001_wrist_l'') (constant_env 0))) = 85"
  using second_wrist_stored
  by (auto simp: generateHeartRate_def generateOxygenSat_def or_default_def Math_random_constant
      val_unit01_of Let_def)

lemma second_wrist_oxygen: "oxygenSaturation (second_wrist_reading 0) = 59"
  unfolding second_wrist_reading_def second_wrist_generate
  by (simp add: extractVitalSigns_reading Let_def classify_def qualityFactor_def
      second_wrist_frame_fields second_wrist_base del: positionVitals.simps)
    (simp add: eval_double)

section \<open>The claims\<close>

subsection \<open>C1: the bands of the derived vitals\<close>

text \<open>
  The bands do not hold for every call. A fresh generator whose every draw is 0 makes, for
  the chest sensor of patient P001, a frame that did not decode; the reading derived from
  it is classified poor and every vital is scaled by 0.7 after the clamping: heart rate
  37, systolic 84, diastolic 56, oxygen saturation 69 and temperature 69 all leave their
  bands.
\<close>

theorem C1_counterexample:
  "signalQuality (sample_reading 0 ''P001_chest'' chest) = poor \<and>
   heartRate (sample_reading 0 ''P001_chest'' chest) = 37 \<and>
   systolic (bloodPressure (sample_reading 0 ''P001_chest'' chest)) = 84 \<and>
   \<not> 90 \<le> systolic (bloodPressure (sample_reading 0 ''P001_chest'' chest)) \<and>
   diastolic (bloodPressure (sample_reading 0 ''P001_chest'' chest)) = 56 \<and>
   oxygenSaturation (sample_reading 0 ''P001_chest'' chest) = 69 \<and>
   temperature (sample_reading 0 ''P001_chest'' chest) = 69"
  by (simp add: eval_constant) (simp add: eval_double)

text \<open>
  C1, as the code has it. The clamping to the documented band is applied to each base value
  before the quality factor \<open>q\<close>; the returned vital is the base value times \<open>q\<close>, rounded
  to a whole number (temperature to one decimal). So for every call, whatever the stored
  last reading and the frame, each vital lies between its band's lower bound times \<open>q\<close>,
  rounded down, and its band's upper bound times \<open>q\<close>, rounded up. For an excellent
  reading (\<open>q = 1\<close>) that is the documented band itself: heart rate 50 to 150, systolic 90
  to 180, diastolic 60 to 120, oxygen saturation 85 to 100, temperature 95 to 104. For a
  poor reading (\<open>q = 0.7\<close>) it is heart rate 35 to 105, systolic 63 to 126, diastolic 42 to
  84, oxygen saturation 59 to 70, temperature 66.5 to 72.8.
\<close>

theorem C1_vitals_within_scaled_bands:
  "let r = fst (extractVitalSigns f ge); q = qualityFactor (signalQuality r)
   in (of_int \<lfloor>50 * q\<rfloor> \<le> heartRate r \<and> heartRate r \<le> of_int \<lceil>150 * q\<rceil> \<and>
       of_int \<lfloor>90 * q\<rfloor> \<le> systolic (bloodPressure r) \<and>
       systolic (bloodPressure r) \<le> of_int \<lceil>180 * q\<rceil> \<and>
       of_int \<lfloor>60 * q\<rfloor> \<le> diastolic (bloodPressure r) \<and>
       diastolic (bloodPressure r) \<le> of_int \<lceil>120 * q\<rceil> \<and>
       of_int \<lfloor>85 * q\<rfloor> \<le> oxygenSaturation r \<and>
       oxygenSaturation r \<le> of_int \<lceil>100 * q\<rceil> \<and>
       of_int \<lfloor>950 * q\<rfloor> / 10 \<le> temperature r \<and>
       temperature r \<le> of_int \<lceil>1040 * q\<rceil> / 10) \<and>
      (signalQuality r = excellent \<longrightarrow>
         50 \<le> heartRate r \<and> heartRate r \<le> 150 \<and>
         90 \<le> systolic (bloodPressure r) \<and> systolic (bloodPressure r) \<le> 180 \<and>
         60 \<le> diastolic (bloodPressure r) \<and> diastolic (bloodPressure r) \<le> 120 \<and>
         85 \<le> oxygenSaturation r \<and> oxygenSaturation r \<le> 100 \<and>
         95 \<le> temperature r \<and> temperature r \<le> 104) \<and>
      (signalQuality r = poor \<longrightarrow>
         35 \<le> heartRate r \<and> heartRate r \<le> 105 \<and>
         63 \<le> systolic (bloodPressure r) \<and> systolic (bloodPressure r) \<le> 126 \<and>
         42 \<le> diastolic (bloodPressure r) \<and> diastolic (bloodPressure r) \<le> 84 \<and>
         59 \<le> oxygenSaturation r \<and> oxygenSaturation r \<le> 70 \<and>
         66.5 \<le> temperature r \<and> temperature r \<le> 72.8)"
proof -
  define r where "r = fst (extractVitalSigns f ge)"
  define q where "q = qualityFactor (signalQuality r)"
  have scaled:
    "of_int \<lfloor>50 * q\<rfloor> \<le> heartRate r \<and> heartRate r \<le> of_int \<lceil>150 * q\<rceil> \<and>
     of_int \<lfloor>90 * q\<rfloor> \<le> systolic (bloodPressure r) \<and>
     systolic (bloodPressure r) \<le> of_int \<lceil>180 * q\<rceil> \<and>
     of_int \<lfloor>60 * q\<rfloor> \<le> diastolic (bloodPressure r) \<and>
     diastolic (bloodPressure r) \<le> of_int \<lceil>120 * q\<rceil> \<and>
     of_int \<lfloor>85 * q\<rfloor> \<le> oxygenSaturation r \<and>
     oxygenSaturation r \<le> of_int \<lceil>100 * q\<rceil> \<and>
     of_int \<lfloor>950 * q\<rfloor> / 10 \<le> temperature r \<and>
     temperature r \<le> of_int \<lceil>1040 * q\<rceil> / 10"
    using extractVitalSigns_bands [of f ge] by (simp add: Let_def r_def q_def)
  have "q = 1" if "signalQuality r = excellent"
    using that by (simp add: q_def qualityFactor_def)
  with scaled have e:
    "signalQuality r = excellent \<longrightarrow>
       50 \<le> heartRate r \<and> heartRate r \<le> 150 \<and>
       90 \<le> systolic (bloodPressure r) \<and> systolic (bloodPressure r) \<le> 180 \<and>
       60 \<le> diastolic (bloodPressure r) \<and> diastolic (bloodPressure r) \<le> 120 \<and>
       85 \<le> oxygenSaturation r \<and> oxygenSaturation r \<le> 100 \<and>
       95 \<le> temperature r \<and> temperature r \<le> 104"
    by auto
  have p:
    "signalQuality r = poor \<longrightarrow>
       35 \<le> heartRate r \<and> heartRate r \<le> 105 \<and>
       63 \<le> systolic (bloodPressure r) \<and> systolic (bloodPressure r) \<le> 126 \<and>
       42 \<le> diastolic (bloodPressure r) \<and> diastolic (bloodPressure r) \<le> 84 \<and>
       59 \<le> oxygenSaturation r \<and> oxygenSaturation r \<le> 70 \<and>
       66.5 \<le> temperature r \<and> temperature r \<le> 72.8"
  proof
    assume "signalQuality r = poor"
    then have q7: "q = 7/10"
      by (simp add: q_def qualityFactor_def)
    show "35 \<le> heartRate r \<and> heartRate r \<le> 105 \<and>
       63 \<le> systolic (bloodPressure r) \<and> systolic (bloodPressure r) \<le> 126 \<and>
       42 \<le> diastolic (bloodPressure r) \<and> diastolic (bloodPressure r) \<le> 84 \<and>
       59 \<le> oxygenSaturation r \<and> oxygenSaturation r \<le> 70 \<and>
       66.5 \<le> temperature r \<and> temperature r \<le> 72.8"
      using scaled unfolding q7 by simp
  qed
  from scaled e p show ?thesis
    unfolding Let_def r_def q_def by blast
qed

text \<open>
  The reading of a decoded chest frame with RSSI -40 is excellent and within the bands.
  With every draw 0 no frame decodes: the first left-wrist reading stores the oxygen
  saturation 61, the second has the base value 85 (61 times 0.9 minus 1, clamped), and
  the double 85 * 0.7 lies just below 59.5, so the second reading returns 59, the lower
  bound of a poor reading.
\<close>

theorem C1_witness:
  "signalQuality (sample_reading (1/2) ''P001_chest'' chest) = excellent \<and>
   50 \<le> heartRate (sample_reading (1/2) ''P001_chest'' chest) \<and>
   heartRate (sample_reading (1/2) ''P001_chest'' chest) \<le> 150 \<and>
   90 \<le> systolic (bloodPressure (sample_reading (1/2) ''P001_chest'' chest)) \<and>
   oxygenSaturation (sample_reading (1/2) ''P001_chest'' chest) \<le> 100 \<and>
   95 \<le> temperature (sample_reading (1/2) ''P001_chest'' chest) \<and>
   map_option oxygenSaturation
     (lastReadings (fst (second_wrist_world 0)) ''P001_wrist_l'') = Some 61 \<and>
   signalQuality (second_wrist_reading 0) = poor \<and>
   oxygenSaturation (second_wrist_reading 0) = 59 \<and>
   35 \<le> heartRate (second_wrist_reading 0) \<and>
   heartRate (second_wrist_reading 0) \<le> 105 \<and>
   temperature (second_wrist_reading 0) \<le> 72.8"
proof -
  have q: "signalQuality (sample_reading (1/2) ''P001_chest'' chest) = excellent"
    by (simp add: eval_constant)
  note c1 = C1_vitals_within_scaled_bands
        [of "sample_frame (1/2) ''P001_chest'' chest"
            "snd (generateBLEFrame ''P001_chest'' chest (constructor (constant_env (1/2))))",
         unfolded Let_def sample_reading_def [symmetric]]
  note c2 = C1_vitals_within_scaled_bands
        [of "second_wrist_frame 0"
            "snd (generateBLEFrame ''P001_wrist_l'' wrist (second_wrist_world 0))",
         unfolded Let_def second_wrist_reading_def [symmetric]]
  from c1 q have 1:
    "50 \<le> heartRate (sample_reading (1/2) ''P001_chest'' chest) \<and>
     heartRate (sample_reading (1/2) ''P001_chest'' chest) \<le> 150 \<and>
     90 \<le> systolic (bloodPressure (sample_reading (1/2) ''P001_chest'' chest)) \<and>
     oxygenSaturation (sample_reading (1/2) ''P001_chest'' chest) \<le> 100 \<and>
     95 \<le> temperature (sample_reading (1/2) ''P001_chest'' chest)"
    by blast
  from c2 second_wrist_poor have 2:
    "35 \<le> heartRate (second_wrist_reading 0) \<and>
     heartRate (second_wrist_reading 0) \<le> 105 \<and>
     temperature (second_wrist_reading 0) \<le> 72.8"
    by blast
  from q 1 second_wrist_stored second_wrist_poor second_wrist_oxygen 2 show ?thesis
    by blast
qed

subsection \<open>C2: the noise factor behind the RSSI\<close>

text \<open>
  C2, evaluated where it fails. The constructor, every draw 0, assigns the factor 0.9 to
  the key \<^verbatim>\<open>chest\<close>. \<^verbatim>\<open>generateWBANReading\<close> asks for the frame of the chest sensor of
  patient P001 under the device id \<^verbatim>\<open>P001_chest\<close>, which is no key of the map: the noise
  of -10 dBm is scaled by 1 and the RSSI is -50. Under the bare id \<^verbatim>\<open>chest\<close> the same call
  divides the noise by the assigned 0.9.
\<close>

theorem C2_assigned_factor_unused:
  "signalNoiseFactors (fst (constructor (constant_env 0))) ''chest'' = Some 0.9 \<and>
   signalNoiseFactors (fst (constructor (constant_env 0))) ''P001_chest'' = None \<and>
   rssi (sample_frame 0 ''P001_chest'' chest) = - 50 \<and>
   rssi (sample_frame 0 ''chest'' chest) = - 40 + (0 * 20 - 10) * (1 / 0.9)"
  by (simp add: eval_constant)

subsection \<open>C3: the oxygen-saturation walk of a wrist frame\<close>

text \<open>
  The stability weight of the walk is not 0.95. On a fresh generator whose every draw
  is 1/2 the perturbation is 0 and the left-wrist frame is excellent: the base value of
  the code is 88.2 (98 times 0.9) and the reading returns 88, where the claimed formula
  with weight 0.95 gives the base value 93.1 (98 times 0.95).
\<close>

theorem C3_counterexample:
  "lastReadings (fst (snd (generateBLEFrame ''P001_wrist_l'' wrist (constructor (constant_env (1/2))))))
     ''P001_wrist_l'' = None \<and>
   val (randoms (constant_env (1/2)) 1) = 1/2 \<and>
   base_oxygenSat (fst (positionVitals wrist None (constant_env (1/2)))) = 88.2 \<and>
   spec_wrist_oxygenSat 98 ((1/2 - 0.5) * 2) = 93.1 \<and>
   signalQuality (sample_reading (1/2) ''P001_wrist_l'' wrist) = excellent \<and>
   oxygenSaturation (sample_reading (1/2) ''P001_wrist_l'' wrist) = 88"
  by (simp add: eval_constant spec_wrist_oxygenSat_def randoms_constant) (simp add: eval_double)

text \<open>
  C3, as the code has it. For a frame with wrist placement the oxygen-saturation base value
  is \<^verbatim>\<open>clamp(lastValue * 0.9 + u, 85, 100)\<close>: the call passes the stability weight 0.9 (0.95
  is the default of the parameter, which no call uses); \<open>u\<close> is twice the second draw of
  the call minus 1, so it lies between -1 (included) and 1 (excluded); \<open>lastValue\<close> is the
  oxygen saturation of the device's stored reading, or 98 when there is none (or when the
  stored value is 0). The reading returns the whole number nearest to the base value times
  the quality factor, and the call stores that reading as the device's last reading.
\<close>

theorem C3_wrist_oxygen_walk:
  "position f = wrist \<Longrightarrow>
     base_oxygenSat (fst (positionVitals (position f) (lastReadings g (deviceId f)) e)) =
       max 85 (min 100
         (or_default (map_option oxygenSaturation (lastReadings g (deviceId f))) 98 * 0.9
            + (val (randoms e 1) - 0.5) * 2)) \<and>
     - 1 \<le> (val (randoms e 1) - 0.5) * 2 \<and> (val (randoms e 1) - 0.5) * 2 < 1 \<and>
     or_default None 98 = 98 \<and>
     oxygenSaturation (fst (extractVitalSigns f (g, e))) \<in> \<int> \<and>
     \<bar>oxygenSaturation (fst (extractVitalSigns f (g, e))) -
        base_oxygenSat (fst (positionVitals (position f) (lastReadings g (deviceId f)) e))
          * qualityFactor (signalQuality (fst (extractVitalSigns f (g, e))))\<bar>
       \<le> 1/2 + 1 / 1000000000 \<and>
     lastReadings (fst (snd (extractVitalSigns f (g, e)))) (deviceId f) =
       Some (fst (extractVitalSigns f (g, e)))"
proof -
  assume w: "position f = wrist"
  let ?b = "fst (positionVitals (position f) (lastReadings g (deviceId f)) e)"
  have 1: "base_oxygenSat ?b =
       max 85 (min 100
         (or_default (map_option oxygenSaturation (lastReadings g (deviceId f))) 98 * 0.9
            + (val (randoms e 1) - 0.5) * 2))"
    by (simp add: w generateHeartRate_def generateOxygenSat_def Let_def split_def second_draw)
  have 2: "- 1 \<le> (val (randoms e 1) - 0.5) * 2" "(val (randoms e 1) - 0.5) * 2 < 1"
    using val_range [of "randoms e 1"] by simp_all
  have 3: "or_default None 98 = 98"
    by (simp add: or_default_def)
  have r: "oxygenSaturation (fst (extractVitalSigns f (g, e))) =
      of_int (round (double_mul (base_oxygenSat ?b) (qualityFactor (classify f))))"
    and q: "signalQuality (fst (extractVitalSigns f (g, e))) = classify f"
    by (simp_all add: extractVitalSigns_reading Let_def)
  have 4: "oxygenSaturation (fst (extractVitalSigns f (g, e))) \<in> \<int>"
    unfolding r by simp
  have "2 \<le> base_oxygenSat ?b" "base_oxygenSat ?b \<le> 2000"
    using positionVitals_oxygenSat [of "position f" "lastReadings g (deviceId f)" e] by simp_all
  then have 5: "\<bar>oxygenSaturation (fst (extractVitalSigns f (g, e))) -
        base_oxygenSat ?b * qualityFactor (signalQuality (fst (extractVitalSigns f (g, e))))\<bar>
       \<le> 1/2 + 1 / 1000000000"
    unfolding r q by (rule round_product_close)
  have 6: "lastReadings (fst (snd (extractVitalSigns f (g, e)))) (deviceId f) =
       Some (fst (extractVitalSigns f (g, e)))"
    by (simp add: extractVitalSigns_generator)
  from 1 2 3 4 5 6 show ?thesis
    by blast
qed

text \<open>
  The second left-wrist reading of a generator, every draw 1/2: the first reading stored
  the oxygen saturation 88, and 88 times 0.9 is 79.2, which the clamp raises to 85.
\<close>

theorem C3_witness:
  "position (second_wrist_frame (1/2)) = wrist \<and>
   map_option oxygenSaturation
     (lastReadings (fst (snd (generateBLEFrame ''P001_wrist_l'' wrist (second_wrist_world (1/2)))))
        ''P001_wrist_l'') = Some 88 \<and>
   base_oxygenSat
     (fst (positionVitals wrist
        (lastReadings (fst (snd (generateBLEFrame ''P001_wrist_l'' wrist (second_wrist_world (1/2)))))
           ''P001_wrist_l'')
        (constant_env (1/2)))) = 85"
proof -
  let ?w = "generateBLEFrame ''P001_wrist_l'' wrist (second_wrist_world (1/2))"
  have e: "snd (second_wrist_world (1/2)) = constant_env (1/2)"
    by (simp add: second_wrist_world_def eval_constant)
  have l0: "map_option oxygenSaturation (lastReadings (fst (second_wrist_world (1/2))) ''P001_wrist_l'')
      = Some 88"
    by (simp add: second_wrist_world_def eval_constant) (simp add: eval_double)
  have sw: "(second_wrist_world (1/2)) = (fst (second_wrist_world (1/2)), constant_env (1/2))"
    using e by (metis prod.collapse)
  have p: "position (second_wrist_frame (1/2)) = wrist"
    unfolding second_wrist_frame_def by (subst sw) (rule generateBLEFrame_position)
  have d: "deviceId (second_wrist_frame (1/2)) = ''P001_wrist_l''"
    unfolding second_wrist_frame_def by (subst sw) (rule generateBLEFrame_deviceId)
  have g: "fst (snd ?w) = (fst (second_wrist_world (1/2)))\<lparr>frameCounter := frameCounter (fst (second_wrist_world (1/2))) + 1\<rparr>"
    by (subst sw) (rule generateBLEFrame_generator)
  have l: "map_option oxygenSaturation (lastReadings (fst (snd ?w)) ''P001_wrist_l'') = Some 88"
    unfolding g using l0 by simp
  note c3 = C3_wrist_oxygen_walk [OF p, of "fst (snd ?w)" "constant_env (1/2)", unfolded d p l]
  from c3 have "base_oxygenSat
     (fst (positionVitals wrist (lastReadings (fst (snd ?w)) ''P001_wrist_l'') (constant_env (1/2))))
     = max 85 (min 100 (or_default (Some 88) 98 * 0.9
            + (val (randoms (constant_env (1/2)) 1) - 0.5) * 2))"
    by blast
  then have "base_oxygenSat
     (fst (positionVitals wrist (lastReadings (fst (snd ?w)) ''P001_wrist_l'') (constant_env (1/2))))
     = 85"
    by (simp add: or_default_def randoms_constant val_unit01_of)
  with p l show ?thesis
    by blast
qed

subsection \<open>C4: channel and carrier frequency\<close>

text \<open>
  The channel set is not the indices 0 to 36 with 37 and 38: the array of the source also
  holds 39, and a draw of 0.99 selects it.
\<close>

theorem C4_counterexample:
  "channelNumber (sample_frame 0.99 ''P001_chest'' chest) = 39 \<and>
   39 \<notin> ({0..36} \<union> {37, 38}) - {11::nat}"
  by (simp add: eval_constant)

text \<open>
  C4, as the code has it. For every generated frame the channel number is an element of the
  fixed array of 39 values, which are the numbers 0 to 39 without 11 (so 37, 38 and 39 are
  all present), and the carrier frequency is 2402000000 + channelNumber * 2000000 Hz.
\<close>

theorem C4_channel_and_frequency:
  "channelNumber (fst (generateBLEFrame dev pos ge)) \<in> set BLE_CHANNELS \<and>
   set BLE_CHANNELS = {0..10} \<union> {12..39} \<and>
   length BLE_CHANNELS = 39 \<and>
   frequency (fst (generateBLEFrame dev pos ge)) =
     2402000000 + channelNumber (fst (generateBLEFrame dev pos ge)) * 2000000"
  using generateBLEFrame_channel [of dev pos ge] BLE_CHANNELS_set BLE_CHANNELS_length
  by simp

text \<open>The frame drawn with 0.99 is on channel 39, at 2.480 GHz.\<close>

theorem C4_witness:
  "channelNumber (sample_frame 0.99 ''P001_chest'' chest) \<in> {0..10} \<union> {12..39} \<and>
   frequency (sample_frame 0.99 ''P001_chest'' chest) = 2480000000"
proof -
  have c: "channelNumber (sample_frame 0.99 ''P001_chest'' chest) = 39"
    by (simp add: eval_constant)
  show ?thesis
    using C4_channel_and_frequency [of "''P001_chest''" chest "constructor (constant_env 0.99)"]
    unfolding sample_frame_def [symmetric] c
    by simp
qed

subsection \<open>C5: the signal-quality classification\<close>

text \<open>
  C5. For every frame and every generator state, the signal quality of the derived reading
  is poor if the RSSI is below -70 or the frame did not decode, otherwise fair if the RSSI
  is below -60, otherwise good if it is below -50, otherwise excellent.
\<close>

theorem C5_signal_quality_classification:
  "signalQuality (fst (extractVitalSigns f ge)) =
     (if rssi f < - 70 \<or> \<not> frameDecoded f then poor
      else if rssi f < - 60 then fair
      else if rssi f < - 50 then good
      else excellent)"
  by (simp add: extractVitalSigns_def classify_def Let_def split_def)

text \<open>An undecoded frame reads poor; a decoded frame with RSSI -40 reads excellent.\<close>

theorem C5_witness:
  "rssi (sample_frame 0 ''P001_chest'' chest) = - 50 \<and>
   \<not> frameDecoded (sample_frame 0 ''P001_chest'' chest) \<and>
   signalQuality (sample_reading 0 ''P001_chest'' chest) = poor \<and>
   rssi (sample_frame (1/2) ''P001_chest'' chest) = - 40 \<and>
   frameDecoded (sample_frame (1/2) ''P001_chest'' chest) \<and>
   signalQuality (sample_reading (1/2) ''P001_chest'' chest) = excellent"
proof -
  have f: "rssi (sample_frame 0 ''P001_chest'' chest) = - 50"
    "\<not> frameDecoded (sample_frame 0 ''P001_chest'' chest)"
    "rssi (sample_frame (1/2) ''P001_chest'' chest) = - 40"
    "frameDecoded (sample_frame (1/2) ''P001_chest'' chest)"
    by (simp_all add: eval_constant)
  show ?thesis
    unfolding sample_reading_def
      C5_signal_quality_classification [of "sample_frame 0 ''P001_chest'' chest"]
      C5_signal_quality_classification [of "sample_frame (1/2) ''P001_chest'' chest"]
    using f by simp
qed

subsection \<open>C6: aggregate quality and connection status\<close>

text \<open>
  C6. For every non-empty sequence of readings the aggregation returns a reading; its
  signal quality is good if more than half of the readings are not poor and fair otherwise;
  its connection status is connected if all readings are connected, else weak if at least
  one is, else disconnected. In particular all-poor readings aggregate to fair, and to
  disconnected when none of them is connected.
\<close>

theorem C6_aggregate_quality_and_connection:
  "readings \<noteq> [] \<Longrightarrow>
     \<exists>a. aggregateVitalSigns readings = Inr a \<and>
       signalQuality a =
         (if 2 * length (filter (\<lambda>r. signalQuality r \<noteq> poor) readings) > length readings
          then good else fair) \<and>
       connectionStatus a =
         (if \<forall>r \<in> set readings. connectionStatus r = connected then connected
          else if \<exists>r \<in> set readings. connectionStatus r = connected then weak
          else disconnected) \<and>
       ((\<forall>r \<in> set readings. signalQuality r = poor) \<longrightarrow> signalQuality a = fair) \<and>
       ((\<forall>r \<in> set readings. signalQuality r = poor \<and> connectionStatus r \<noteq> connected) \<longrightarrow>
          signalQuality a = fair \<and> connectionStatus a = disconnected)"
proof -
  assume ne: "readings \<noteq> []"
  let ?good = "filter (\<lambda>r. signalQuality r \<noteq> poor) readings"
  obtain best where best:
    "(case find (\<lambda>r. signalQuality r = excellent) readings of
        Some r \<Rightarrow> Some r
      | None \<Rightarrow>
          (case ?good of
             r # _ \<Rightarrow> Some r
           | [] \<Rightarrow> (case readings of r # _ \<Rightarrow> Some r | [] \<Rightarrow> None))) = Some best"
    using bestReading_nonempty [OF ne] by blast
  have half: "(real (length ?good) > real (length readings) / 2) =
      (2 * length ?good > length readings)"
    by (simp add: field_simps) linarith
  have allpoor: "?good = []" if "\<forall>r \<in> set readings. signalQuality r = poor"
    using that by (simp add: filter_empty_conv)
  have len: "0 < length readings"
    using ne by simp
  show ?thesis
    unfolding aggregateVitalSigns_def Let_def best half
    using ne len allpoor
    by (auto simp: list_all_iff list_ex_iff)
qed


text \<open>Two poor, weakly connected readings aggregate to fair and disconnected.\<close>

theorem C6_witness:
  "[sample_reading 0 ''P001_chest'' chest, sample_reading 0 ''P001_head'' head] \<noteq> [] \<and>
   signalQuality (sample_reading 0 ''P001_chest'' chest) = poor \<and>
   signalQuality (sample_reading 0 ''P001_head'' head) = poor \<and>
   connectionStatus (sample_reading 0 ''P001_chest'' chest) = weak \<and>
   connectionStatus (sample_reading 0 ''P001_head'' head) = weak \<and>
   (\<exists>a. aggregateVitalSigns
          [sample_reading 0 ''P001_chest'' chest, sample_reading 0 ''P001_head'' head] = Inr a \<and>
        signalQuality a = fair \<and> connectionStatus a = disconnected)"
proof -
  let ?rs = "[sample_reading 0 ''P001_chest'' chest, sample_reading 0 ''P001_head'' head]"
  have ne: "?rs \<noteq> []"
    by simp
  have q: "signalQuality (sample_reading 0 ''P001_chest'' chest) = poor"
    "signalQuality (sample_reading 0 ''P001_head'' head) = poor"
    by (simp_all add: eval_constant)
  have c: "connectionStatus (sample_reading 0 ''P001_chest'' chest) = weak"
    "connectionStatus (sample_reading 0 ''P001_head'' head) = weak"
    by (simp_all add: eval_constant)
  from C6_aggregate_quality_and_connection [OF ne] obtain a where
    "aggregateVitalSigns ?rs = Inr a"
    "(\<forall>r \<in> set ?rs. signalQuality r = poor \<and> connectionStatus r \<noteq> connected) \<longrightarrow>
       signalQuality a = fair \<and> connectionStatus a = disconnected"
    by blast
  with q c have "aggregateVitalSigns ?rs = Inr a \<and> signalQuality a = fair \<and>
      connectionStatus a = disconnected"
    by simp
  with q c show ?thesis
    by blast
qed

subsection \<open>C7: aggregation of a single reading\<close>

text \<open>
  C7. Aggregation of a single reading whose heart rate is a whole number returns a reading
  with that heart rate and with the blood pressure, oxygen saturation, temperature,
  timestamp and battery level of the input reading. The readings that
  \<^verbatim>\<open>generateWBANReading\<close> hands to the aggregation, those returned by
  \<^verbatim>\<open>extractVitalSigns\<close>, all have a whole-number heart rate, so for each of them the
  aggregation of that reading alone returns its heart rate and those fields unchanged.
\<close>

theorem C7_aggregate_single:
  "(heartRate r \<in> \<int> \<longrightarrow>
      (\<exists>a. aggregateVitalSigns [r] = Inr a \<and>
         heartRate a = heartRate r \<and>
         bloodPressure a = bloodPressure r \<and>
         oxygenSaturation a = oxygenSaturation r \<and>
         temperature a = temperature r \<and>
         reading_timestamp a = reading_timestamp r \<and>
         batteryLevel a = batteryLevel r)) \<and>
   heartRate (fst (extractVitalSigns f ge)) \<in> \<int> \<and>
   (\<exists>a. aggregateVitalSigns [fst (extractVitalSigns f ge)] = Inr a \<and>
      heartRate a = heartRate (fst (extractVitalSigns f ge)) \<and>
      bloodPressure a = bloodPressure (fst (extractVitalSigns f ge)) \<and>
      oxygenSaturation a = oxygenSaturation (fst (extractVitalSigns f ge)) \<and>
      temperature a = temperature (fst (extractVitalSigns f ge)) \<and>
      reading_timestamp a = reading_timestamp (fst (extractVitalSigns f ge)) \<and>
      batteryLevel a = batteryLevel (fst (extractVitalSigns f ge)))"
proof -
  have single: "\<exists>a. aggregateVitalSigns [x] = Inr a \<and>
         heartRate a = heartRate x \<and>
         bloodPressure a = bloodPressure x \<and>
         oxygenSaturation a = oxygenSaturation x \<and>
         temperature a = temperature x \<and>
         reading_timestamp a = reading_timestamp x \<and>
         batteryLevel a = batteryLevel x" if "heartRate x \<in> \<int>" for x
  proof -
    have whole: "real_of_int (round (heartRate x)) = heartRate x"
      using that by (auto elim: Ints_cases)
    show ?thesis
      by (auto simp: aggregateVitalSigns_def Let_def whole split: option.splits)
  qed
  have h: "heartRate (fst (extractVitalSigns f ge)) \<in> \<int>"
    by (rule extractVitalSigns_heartRate_whole)
  from single [of r] h single [OF h] show ?thesis
    by blast
qed

text \<open>The excellent chest reading of a fresh generator has heart rate 58 and keeps it.\<close>

theorem C7_witness:
  "heartRate (sample_reading (1/2) ''P001_chest'' chest) = 58 \<and>
   heartRate (sample_reading (1/2) ''P001_chest'' chest) \<in> \<int> \<and>
   (\<exists>a. aggregateVitalSigns [sample_reading (1/2) ''P001_chest'' chest] = Inr a \<and>
        heartRate a = 58 \<and>
        bloodPressure a = bloodPressure (sample_reading (1/2) ''P001_chest'' chest) \<and>
        batteryLevel a = batteryLevel (sample_reading (1/2) ''P001_chest'' chest))"
proof -
  have h: "heartRate (sample_reading (1/2) ''P001_chest'' chest) = 58"
    by (simp add: eval_constant) (simp add: eval_double)
  then have i: "heartRate (sample_reading (1/2) ''P001_chest'' chest) \<in> \<int>"
    by simp
  from C7_aggregate_single [of "sample_reading (1/2) ''P001_chest'' chest"
      "sample_frame (1/2) ''P001_chest'' chest"
      "snd (generateBLEFrame ''P001_chest'' chest (constructor (constant_env (1/2))))"] i
  obtain a where "aggregateVitalSigns [sample_reading (1/2) ''P001_chest'' chest] = Inr a"
    "heartRate a = heartRate (sample_reading (1/2) ''P001_chest'' chest)"
    "bloodPressure a = bloodPressure (sample_reading (1/2) ''P001_chest'' chest)"
    "batteryLevel a = batteryLevel (sample_reading (1/2) ''P001_chest'' chest)"
    by blast
  with h i show ?thesis
    by auto
qed

subsection \<open>C8: frame sequence numbers\<close>

text \<open>
  C8. The first frame of a generator has number 1; of two consecutive
  \<^verbatim>\<open>generateBLEFrame\<close> calls the second frame's number is the first's plus 1; and over any
  sequence of calls of the public methods on a fresh generator the frames come out
  numbered 1, 2, 3, ... in call order, hence strictly increasing and without repetition.
\<close>

theorem C8_frame_numbers:
  "frameNumber (fst (generateBLEFrame dev pos (constructor e))) = 1 \<and>
   frameNumber (fst (generateBLEFrame dev' pos' (snd (generateBLEFrame dev pos ge)))) =
     frameNumber (fst (generateBLEFrame dev pos ge)) + 1 \<and>
   map frameNumber (fst (fst (run cs (constructor e)))) =
     [1 ..< Suc (length (fst (fst (run cs (constructor e)))))] \<and>
   sorted_wrt (<) (map frameNumber (fst (fst (run cs (constructor e))))) \<and>
   distinct (map frameNumber (fst (fst (run cs (constructor e)))))"
proof -
  obtain g0 e0 where c: "constructor e = (g0, e0)"
    by (cases "constructor e")
  have g0: "frameCounter g0 = 0"
    using constructor_frameCounter [of e] by (simp add: c)
  have 1: "frameNumber (fst (generateBLEFrame dev pos (constructor e))) = 1"
    by (simp add: c generateBLEFrame_frameNumber g0)
  obtain g e1 where ge: "ge = (g, e1)"
    by (cases ge)
  obtain f ge1 where f: "generateBLEFrame dev pos ge = (f, ge1)"
    by (cases "generateBLEFrame dev pos ge")
  obtain g1 e2 where ge1: "ge1 = (g1, e2)"
    by (cases ge1)
  have "frameNumber f = frameCounter g + 1" "frameCounter g1 = frameCounter g + 1"
    using generateBLEFrame_frameNumber [of dev pos g e1]
      generateBLEFrame_generator [of dev pos g e1] f by (simp_all add: ge ge1)
  then have 2: "frameNumber (fst (generateBLEFrame dev' pos' (snd (generateBLEFrame dev pos ge)))) =
      frameNumber (fst (generateBLEFrame dev pos ge)) + 1"
    by (simp add: f ge1 generateBLEFrame_frameNumber)
  have 3: "map frameNumber (fst (fst (run cs (constructor e)))) =
      [1 ..< Suc (length (fst (fst (run cs (constructor e)))))]"
    using run_trace [of "constructor e" cs]
    by (simp add: numbered_def constructor_frameCounter del: upt_Suc)
  have 4: "sorted_wrt (<) (map frameNumber (fst (fst (run cs (constructor e)))))"
    unfolding 3 by (rule sorted_wrt_upt)
  have 5: "distinct (map frameNumber (fst (fst (run cs (constructor e)))))"
    unfolding 3 by (rule distinct_upt)
  from 1 2 3 4 5 show ?thesis
    by blast
qed

text \<open>One direct frame and one network reading give the numbers 1 to 7.\<close>

theorem C8_witness:
  "frameNumber (sample_frame (1/2) ''P001_chest'' chest) = 1 \<and>
   length (fst (fst (run sample_calls (constructor (constant_env (1/2)))))) = 7 \<and>
   map frameNumber (fst (fst (run sample_calls (constructor (constant_env (1/2)))))) = [1 ..< 8]"
proof -
  let ?fs = "fst (fst (run sample_calls (constructor (constant_env (1/2)))))"
  have len: "length ?fs = 7"
    by (simp add: sample_calls_def split_def Let_def forEachSensor_length WBAN_POSITIONS_length)
  from C8_frame_numbers [of "''P001_chest''" chest "constant_env (1/2)" _ _ _ sample_calls]
  have "frameNumber (sample_frame (1/2) ''P001_chest'' chest) = 1"
    and "map frameNumber ?fs = [1 ..< Suc (length ?fs)]"
    unfolding sample_frame_def by blast+
  then show ?thesis
    unfolding len using len by simp
qed

subsection \<open>C9: battery level\<close>

text \<open>
  C9. The battery level of a reading returned by \<^verbatim>\<open>extractVitalSigns\<close> is
  \<^verbatim>\<open>max(10, 100 - frameCounter * 0.01)\<close> for the generator's frame counter at that call;
  over any sequence of calls of the public methods, from any generator state, the battery
  levels of the readings derived, in call order, never increase and are never below 10.
\<close>

theorem C9_battery_level:
  "batteryLevel (fst (extractVitalSigns f (g, e))) = max 10 (100 - real (frameCounter g) * 0.01) \<and>
   sorted_wrt (\<lambda>a b. batteryLevel b \<le> batteryLevel a) (snd (fst (run cs ge))) \<and>
   list_all (\<lambda>v. 10 \<le> batteryLevel v) (snd (fst (run cs ge)))"
proof -
  have 1: "batteryLevel (fst (extractVitalSigns f (g, e))) =
      max 10 (100 - real (frameCounter g) * 0.01)"
    by (simp add: extractVitalSigns_reading Let_def)
  have d: "draining (frameCounter (fst ge)) (snd (fst (run cs ge)))
      (frameCounter (fst (snd (run cs ge))))"
    using run_trace [of ge cs] by simp
  then have 2: "sorted_wrt (\<lambda>a b. batteryLevel b \<le> batteryLevel a) (snd (fst (run cs ge)))"
    by (simp add: draining_def)
  have "\<forall>v \<in> set (snd (fst (run cs ge))). 10 \<le> batteryLevel v"
    using d battery_at_floor [of "frameCounter (fst (snd (run cs ge)))"]
    unfolding draining_def list_all_iff by fastforce
  then have 3: "list_all (\<lambda>v. 10 \<le> batteryLevel v) (snd (fst (run cs ge)))"
    by (simp add: list_all_iff)
  from 1 2 3 show ?thesis
    by blast
qed

text \<open>After one frame the battery reads 99.99; the six readings that follow only fall.\<close>

theorem C9_witness:
  "batteryLevel (sample_reading (1/2) ''P001_chest'' chest) = 99.99 \<and>
   length (snd (fst (run sample_calls (constructor (constant_env (1/2)))))) = 6 \<and>
   sorted_wrt (\<lambda>a b. batteryLevel b \<le> batteryLevel a)
     (snd (fst (run sample_calls (constructor (constant_env (1/2)))))) \<and>
   list_all (\<lambda>v. 10 \<le> batteryLevel v)
     (snd (fst (run sample_calls (constructor (constant_env (1/2))))))"
proof -
  let ?w = "generateBLEFrame ''P001_chest'' chest (constructor (constant_env (1/2)))"
  let ?vs = "snd (fst (run sample_calls (constructor (constant_env (1/2)))))"
  have w: "(fst (snd ?w), constant_env (1/2)) = snd ?w"
    by (simp add: eval_constant)
  have c: "frameCounter (fst (snd ?w)) = 1"
    by (simp add: eval_constant)
  have len: "length ?vs = 6"
    by (simp add: sample_calls_def split_def Let_def forEachSensor_length WBAN_POSITIONS_length)
  note c9 = C9_battery_level [of "sample_frame (1/2) ''P001_chest'' chest" "fst (snd ?w)"
      "constant_env (1/2)" sample_calls "constructor (constant_env (1/2))",
      unfolded w sample_reading_def [symmetric] c]
  from c9 have "batteryLevel (sample_reading (1/2) ''P001_chest'' chest) = 99.99"
    by simp
  with c9 len show ?thesis
    by blast
qed

subsection \<open>C10: the composite device id misses the noise-factor map\<close>

text \<open>
  C10. In any state that a sequence of calls on a fresh generator reaches, for every
  patient id: \<^verbatim>\<open>generateWBANReading\<close> returns its six frames, whose device ids are the
  composite ids \<^verbatim>\<open>patientId_positionId\<close>, while the keys of the noise-factor map are the
  bare position ids; so for every frame the lookup misses and the noise level is 1, the
  RSSI lies between -50 (included) and -30 (excluded), the signal quality of the per-sensor
  reading is excellent when the frame decoded and poor when it did not, and its connection
  status is connected or weak.
\<close>

theorem C10_composite_id_misses_noise_factor:
  "let ge = snd (run cs (constructor e));
       frames = fst (fst (forEachSensor pid WBAN_POSITIONS ([], []) ge));
       readings = snd (fst (forEachSensor pid WBAN_POSITIONS ([], []) ge))
   in (\<exists>nr. fst (generateWBANReading pid ge) = Inr nr \<and> bleFrames nr = frames) \<and>
      map deviceId frames = map (\<lambda>s. pid @ ''_'' @ sensor_id s) WBAN_POSITIONS \<and>
      dom (signalNoiseFactors (fst ge)) = sensor_id ` set WBAN_POSITIONS \<and>
      list_all2
        (\<lambda>f r. signalNoiseFactors (fst ge) (deviceId f) = None \<and>
               noiseLevel_of (fst ge) (deviceId f) = 1 \<and>
               - 50 \<le> rssi f \<and> rssi f < - 30 \<and>
               signalQuality r = (if frameDecoded f then excellent else poor) \<and>
               (connectionStatus r = connected \<or> connectionStatus r = weak))
        frames readings"
proof -
  define ge where "ge = snd (run cs (constructor e))"
  define frames where "frames = fst (fst (forEachSensor pid WBAN_POSITIONS ([], []) ge))"
  define readings where "readings = snd (fst (forEachSensor pid WBAN_POSITIONS ([], []) ge))"
  have keys: "dom (signalNoiseFactors (fst ge)) = sensor_id ` set WBAN_POSITIONS"
    using run_trace [of "constructor e" cs] constructor_keys [of e] by (simp add: ge_def)
  have miss: "\<forall>s \<in> set WBAN_POSITIONS. signalNoiseFactors (fst ge) (pid @ ''_'' @ sensor_id s) = None"
  proof
    fix s assume "s \<in> set WBAN_POSITIONS"
    then have "pid @ ''_'' @ sensor_id s \<notin> dom (signalNoiseFactors (fst ge))"
      unfolding keys by (rule composite_id_no_key)
    then show "signalNoiseFactors (fst ge) (pid @ ''_'' @ sensor_id s) = None"
      by blast
  qed
  have 1: "\<exists>nr. fst (generateWBANReading pid ge) = Inr nr \<and> bleFrames nr = frames"
    unfolding frames_def by (rule generateWBANReading_frames)
  have 2: "map deviceId frames = map (\<lambda>s. pid @ ''_'' @ sensor_id s) WBAN_POSITIONS"
    and m: "list_all2 (missed (signalNoiseFactors (fst ge))) frames readings"
    using forEachSensor_missed [OF miss] by (simp_all add: frames_def readings_def)
  have 3: "list_all2
        (\<lambda>f r. signalNoiseFactors (fst ge) (deviceId f) = None \<and>
               noiseLevel_of (fst ge) (deviceId f) = 1 \<and>
               - 50 \<le> rssi f \<and> rssi f < - 30 \<and>
               signalQuality r = (if frameDecoded f then excellent else poor) \<and>
               (connectionStatus r = connected \<or> connectionStatus r = weak))
        frames readings"
    using m by (rule list_all2_mono) (simp add: missed_def noiseLevel_of_def)
  from 1 2 keys 3 show ?thesis
    unfolding Let_def ge_def [symmetric] frames_def [symmetric] readings_def [symmetric]
    by blast
qed

text \<open>The first network reading of patient P001 on a fresh generator, every draw 1/2.\<close>

theorem C10_witness:
  "\<exists>nr. fst (generateWBANReading ''P001'' (constructor (constant_env (1/2)))) = Inr nr \<and>
     length (bleFrames nr) = 6 \<and>
     map deviceId (bleFrames nr) =
       [''P001_chest'', ''P001_wrist_l'', ''P001_wrist_r'', ''P001_head'', ''P001_arm_l'',
        ''P001_torso_back''] \<and>
     list_all (\<lambda>f. signalNoiseFactors (fst (constructor (constant_env (1/2)))) (deviceId f) = None \<and>
                   - 50 \<le> rssi f \<and> rssi f < - 30) (bleFrames nr)"
proof -
  let ?ge = "constructor (constant_env (1/2))"
  let ?frames = "fst (fst (forEachSensor ''P001'' WBAN_POSITIONS ([], []) ?ge))"
  let ?readings = "snd (fst (forEachSensor ''P001'' WBAN_POSITIONS ([], []) ?ge))"
  note c10 = C10_composite_id_misses_noise_factor [of "[]" "constant_env (1/2)" "''P001''",
      unfolded Let_def run.simps snd_conv]
  from c10 obtain nr where nr:
    "fst (generateWBANReading ''P001'' ?ge) = Inr nr" "bleFrames nr = ?frames"
    by blast
  from c10 have ids: "map deviceId ?frames = map (\<lambda>s. ''P001'' @ ''_'' @ sensor_id s) WBAN_POSITIONS"
    by blast
  from c10 have "list_all2
        (\<lambda>f r. signalNoiseFactors (fst ?ge) (deviceId f) = None \<and>
               noiseLevel_of (fst ?ge) (deviceId f) = 1 \<and>
               - 50 \<le> rssi f \<and> rssi f < - 30 \<and>
               signalQuality r = (if frameDecoded f then excellent else poor) \<and>
               (connectionStatus r = connected \<or> connectionStatus r = weak))
        ?frames ?readings"
    by blast
  then have all: "list_all (\<lambda>f. signalNoiseFactors (fst ?ge) (deviceId f) = None \<and>
      - 50 \<le> rssi f \<and> rssi f < - 30) ?frames"
    unfolding list_all_iff by (auto simp: list_all2_conv_all_nth in_set_conv_nth)
  have len: "length ?frames = 6"
    using arg_cong [OF ids, of length] by (simp add: WBAN_POSITIONS_length)
  have ids': "map deviceId ?frames =
      [''P001_chest'', ''P001_wrist_l'', ''P001_wrist_r'', ''P001_head'', ''P001_arm_l'',
       ''P001_torso_back'']"
    unfolding ids by (simp add: WBAN_POSITIONS_def)
  from nr len ids' all show ?thesis
    by auto
qed

end
